theory Spec2Isabelle
  imports Complex_Main
begin

section \<open>The hardware connection controller of DRISHYA\<close>

text \<open>
  A shallow embedding of the class \<^verbatim>\<open>EnhancedHardwareIntegration\<close> (and of the two
  classifier methods it shares with \<^verbatim>\<open>HardwareIntegrationService\<close>).

  Conventions of the embedding:
  \<^item> a JavaScript number is a \<open>real\<close> (the distances are finite doubles, and comparison
    and \<^verbatim>\<open>Math.min\<close> on finite doubles agree with the reals); \<^verbatim>\<open>null\<close> is \<open>None\<close>,
    and where the source lets \<^verbatim>\<open>null\<close> reach an arithmetic operator it is coerced to 0
    as JavaScript does (\<open>toNumber\<close>); \<^verbatim>\<open>NaN\<close> is not modelled;
  \<^item> the object's fields are the fields of the record \<open>ctrl\<close>; a method that mutates
    \<^verbatim>\<open>this\<close> takes the record and returns the updated one;
  \<^item> a thrown \<^verbatim>\<open>Error\<close> (a rejected promise) is \<open>Inl message\<close>;
  \<^item> the runtime the object talks to is part of the record as well: the clock read by
    \<^verbatim>\<open>Date.now()\<close>, the table of live timers behind \<^verbatim>\<open>setInterval\<close>,
    \<^verbatim>\<open>setTimeout\<close>, \<^verbatim>\<open>clearInterval\<close> and \<^verbatim>\<open>clearTimeout\<close>, the console, and the
    ordered trace of what the object did to the outside (notifications, connection
    attempts, sleeps);
  \<^item> an \<^verbatim>\<open>async\<close> method runs to completion: what other callbacks could do during one of
    its \<^verbatim>\<open>await\<close>s is not modelled.
\<close>

subsection \<open>Distance samples and their classification\<close>

record distance_data =
  front :: "real option"
  left :: "real option"
  right :: "real option"
  timestamp :: "int option"
  source :: "string option"

datatype level = CRITICAL | DANGER | WARNING | SAFE

datatype direction = Kfront | Kleft | Kright

text \<open>\<^verbatim>\<open>ToNumber\<close> on a distance component: \<^verbatim>\<open>null\<close> becomes 0.\<close>

definition toNumber :: "real option \<Rightarrow> real" where
  "toNumber v = (case v of None \<Rightarrow> 0 | Some r \<Rightarrow> r)"

text \<open>\<^verbatim>\<open>Math.min(a, b, c)\<close>.\<close>

definition Math_min3 :: "real option \<Rightarrow> real option \<Rightarrow> real option \<Rightarrow> real" where
  "Math_min3 a b c = min (toNumber a) (min (toNumber b) (toNumber c))"

text \<open>
  \<^verbatim>\<open>analyzeDistanceData(data)\<close> of \<^verbatim>\<open>EnhancedHardwareIntegration\<close>: three tests in
  this order, each with \<^verbatim>\<open><\<close>.
\<close>

definition analyzeDistanceData :: "distance_data \<Rightarrow> level" where
  "analyzeDistanceData data =
     (let minDistance = Math_min3 (front data) (left data) (right data)
      in if minDistance < 1/2 then CRITICAL
         else if minDistance < 1 then DANGER
         else if minDistance < 2 then WARNING
         else SAFE)"

text \<open>
  The same method of \<^verbatim>\<open>HardwareIntegrationService\<close> reads its bounds from the table
  \<^verbatim>\<open>DISTANCE_THRESHOLDS\<close>.
\<close>

definition DISTANCE_THRESHOLDS :: "level \<Rightarrow> real" where
  "DISTANCE_THRESHOLDS l = (case l of CRITICAL \<Rightarrow> 1/2 | DANGER \<Rightarrow> 1 | WARNING \<Rightarrow> 2 | SAFE \<Rightarrow> 3)"

definition service_analyzeDistanceData :: "distance_data \<Rightarrow> level" where
  "service_analyzeDistanceData data =
     (let minDistance = Math_min3 (front data) (left data) (right data)
      in if minDistance < DISTANCE_THRESHOLDS CRITICAL then CRITICAL
         else if minDistance < DISTANCE_THRESHOLDS DANGER then DANGER
         else if minDistance < DISTANCE_THRESHOLDS WARNING then WARNING
         else SAFE)"

text \<open>
  \<^verbatim>\<open>getClosestDirection(data)\<close>, the same text in both classes: the object literal
  \<^verbatim>\<open>{front, left, right}\<close> has its keys in that order, and \<^verbatim>\<open>reduce\<close> without an
  initial value starts from the first key and folds the callback over the others.
\<close>

definition distances :: "distance_data \<Rightarrow> direction \<Rightarrow> real option" where
  "distances data k = (case k of Kfront \<Rightarrow> front data | Kleft \<Rightarrow> left data | Kright \<Rightarrow> right data)"

definition Object_keys :: "direction list" where
  "Object_keys = [Kfront, Kleft, Kright]"

definition closer :: "distance_data \<Rightarrow> direction \<Rightarrow> direction \<Rightarrow> direction" where
  "closer data a b = (if toNumber (distances data a) < toNumber (distances data b) then a else b)"

definition reduce :: "('a \<Rightarrow> 'a \<Rightarrow> 'a) \<Rightarrow> 'a list \<Rightarrow> 'a option" where
  "reduce f xs = (case xs of [] \<Rightarrow> None | x # rest \<Rightarrow> Some (foldl f x rest))"

definition getClosestDirection :: "distance_data \<Rightarrow> direction option" where
  "getClosestDirection data = reduce (closer data) Object_keys"

subsection \<open>Constants and data of the controller\<close>

definition MAX_RETRY_ATTEMPTS :: nat where "MAX_RETRY_ATTEMPTS = 3"
definition RETRY_DELAY_BASE :: nat where "RETRY_DELAY_BASE = 2000"
definition CONNECTION_TIMEOUT :: nat where "CONNECTION_TIMEOUT = 15000"
definition HEALTH_CHECK_INTERVAL :: nat where "HEALTH_CHECK_INTERVAL = 5000"
definition RECONNECT_DELAY :: nat where "RECONNECT_DELAY = 3000"

datatype connection_state =
  DISCONNECTED | CONNECTING | CONNECTED | RECONNECTING | FAILED | FALLBACK

datatype error_type =
  BLUETOOTH_UNAVAILABLE | DEVICE_NOT_FOUND | CONNECTION_FAILED | CONNECTION_LOST
  | TIMEOUT | PERMISSION_DENIED

text \<open>
  A device object: \<^verbatim>\<open>performScan\<close> gives all four properties, \<^verbatim>\<open>connectToDevice\<close>
  stores one with \<^verbatim>\<open>id\<close> and \<^verbatim>\<open>name\<close> only.
\<close>

record device_info =
  device_id :: string
  device_name :: string
  rssi :: "int option"
  batteryLevel :: "int option"

record error_record =
  err_type :: error_type
  err_message :: string
  err_timestamp :: int
  err_state :: connection_state

record capabilities =
  camera :: bool
  microphone :: bool
  cap_phoneLidar :: bool
  gps :: bool
  sensors :: bool

record fallback_info =
  fb_reason :: string
  fb_phoneLidar :: bool
  fb_capabilities :: capabilities

record obstacle_info =
  obstacle_level :: level
  obstacle_distance :: real
  obstacle_direction :: "direction option"
  obstacle_source :: "string option"

text \<open>The event names passed to \<^verbatim>\<open>notifyListeners\<close>, and what is passed with them.\<close>

datatype event =
  Ev_stateChange | Ev_connected | Ev_connectionLost | Ev_fallbackActivated
  | Ev_distance | Ev_obstacle | Ev_disconnected | Ev_error

datatype payload =
  PState connection_state
  | PDevice device_info
  | PEmpty
  | PFallback fallback_info
  | PDistance distance_data
  | PObstacle obstacle_info
  | PError error_record

text \<open>
  A subscriber is known by what its call does to the caller: it returns, or it throws.
  Subscribers are observers; they do not call the controller's mutating methods from
  inside the notification (the screens of the application only copy the payload and read
  \<^verbatim>\<open>getConnectionStatus\<close>).
\<close>

datatype outcome = Returned | Threw string

type_synonym callback = "payload \<Rightarrow> outcome"

text \<open>What the object does to the outside, in order.\<close>

datatype effect =
  Notify event payload
  | EstablishConnection string
  | Sleep nat

datatype log_arg = LStr string | LNum int | LBool bool | LType error_type

datatype log_level = LOG | ERROR

text \<open>
  The closures handed to \<^verbatim>\<open>setInterval\<close> and \<^verbatim>\<open>setTimeout\<close>: the health check of
  \<^verbatim>\<open>startHealthCheck\<close>, the sampling of \<^verbatim>\<open>startDistanceMonitoring\<close>, the reconnection of
  \<^verbatim>\<open>handleConnectionLoss\<close>. A live timer is its id, its closure and its period or delay.
  The table holds the timers whose closures touch the object; the timers inside
  \<^verbatim>\<open>sleep\<close> and inside the two timeout promises only settle promises.
  The ids the runtime hands out are positive, so a stored id is always truthy and
  \<open>None\<close> stands for \<^verbatim>\<open>null\<close> or \<^verbatim>\<open>undefined\<close>.
\<close>

datatype timer_task = HealthCheckTask | MonitoringTask | ReconnectTask

type_synonym timer = "nat \<times> timer_task \<times> nat"

record ctrl =
  connectionState :: connection_state
  device :: "device_info option"
  retryCount :: nat
  healthCheckTimer :: "nat option"
  reconnectTimer :: "nat option"
  lastDataTimestamp :: "int option"
  distanceData :: distance_data
  listeners :: "event \<rightharpoonup> callback"
  errorLog :: "error_record list"
  fallbackMode :: bool
  phoneHasLidar :: bool
  monitoringInterval :: "nat option"
  clock :: int
  timers :: "timer list"
  nextTimerId :: nat
  console :: "(log_level \<times> log_arg list) list"
  trace :: "effect list"

text \<open>
  The constructor; \<^verbatim>\<open>monitoringInterval\<close> is not assigned there and starts undefined.
  The runtime starts at time \<open>now\<close> with no timer.
\<close>

definition new_ctrl :: "int \<Rightarrow> ctrl" where
  "new_ctrl now =
     \<lparr> connectionState = DISCONNECTED,
       device = None,
       retryCount = 0,
       healthCheckTimer = None,
       reconnectTimer = None,
       lastDataTimestamp = None,
       distanceData = \<lparr> front = None, left = None, right = None,
                        timestamp = None, source = None \<rparr>,
       listeners = Map.empty,
       errorLog = [],
       fallbackMode = False,
       phoneHasLidar = False,
       monitoringInterval = None,
       clock = now,
       timers = [],
       nextTimerId = 1,
       console = [],
       trace = [] \<rparr>"

subsection \<open>The runtime: console, timers, time\<close>

definition logInfo :: "log_arg list \<Rightarrow> ctrl \<Rightarrow> ctrl" where
  "logInfo args s = s\<lparr>console := console s @ [(LOG, LStr ''[HardwareIntegration]'' # args)]\<rparr>"

definition logError :: "log_arg list \<Rightarrow> ctrl \<Rightarrow> ctrl" where
  "logError args s = s\<lparr>console := console s @ [(ERROR, LStr ''[HardwareIntegration]'' # args)]\<rparr>"

text \<open>\<^verbatim>\<open>setInterval\<close> and \<^verbatim>\<open>setTimeout\<close>: a fresh id, returned to the caller.\<close>

definition setTimer :: "timer_task \<Rightarrow> nat \<Rightarrow> ctrl \<Rightarrow> nat \<times> ctrl" where
  "setTimer task ms s =
     (nextTimerId s,
      s\<lparr>timers := timers s @ [(nextTimerId s, task, ms)], nextTimerId := Suc (nextTimerId s)\<rparr>)"

text \<open>\<^verbatim>\<open>clearInterval\<close> and \<^verbatim>\<open>clearTimeout\<close>; an id that is not live is ignored.\<close>

definition clearTimer :: "nat \<Rightarrow> ctrl \<Rightarrow> ctrl" where
  "clearTimer t s = s\<lparr>timers := filter (\<lambda>tm. fst tm \<noteq> t) (timers s)\<rparr>"

definition advance :: "nat \<Rightarrow> ctrl \<Rightarrow> ctrl" where
  "advance ms s = s\<lparr>clock := clock s + int ms\<rparr>"

text \<open>\<^verbatim>\<open>sleep(ms)\<close>, awaited.\<close>

definition sleep :: "nat \<Rightarrow> ctrl \<Rightarrow> ctrl" where
  "sleep ms s = advance ms (s\<lparr>trace := trace s @ [Sleep ms]\<rparr>)"

text \<open>
  \<^verbatim>\<open>Promise.race\<close> of two promises that each settle from a timer: a promise is the
  delay of its timer and what it settles to. The first argument's timer is set first, so
  it also wins a tie.
\<close>

definition Promise_race :: "nat \<times> 'a \<Rightarrow> nat \<times> 'a \<Rightarrow> nat \<times> 'a" where
  "Promise_race p q = (if fst p \<le> fst q then p else q)"

subsection \<open>Subscribers\<close>

definition onDistanceUpdate :: "callback \<Rightarrow> ctrl \<Rightarrow> ctrl" where
  "onDistanceUpdate cb s = s\<lparr>listeners := (listeners s)(Ev_distance \<mapsto> cb)\<rparr>"

definition onObstacleDetected :: "callback \<Rightarrow> ctrl \<Rightarrow> ctrl" where
  "onObstacleDetected cb s = s\<lparr>listeners := (listeners s)(Ev_obstacle \<mapsto> cb)\<rparr>"

definition onStateChange :: "callback \<Rightarrow> ctrl \<Rightarrow> ctrl" where
  "onStateChange cb s = s\<lparr>listeners := (listeners s)(Ev_stateChange \<mapsto> cb)\<rparr>"

definition onError :: "callback \<Rightarrow> ctrl \<Rightarrow> ctrl" where
  "onError cb s = s\<lparr>listeners := (listeners s)(Ev_error \<mapsto> cb)\<rparr>"

definition onFallbackActivated :: "callback \<Rightarrow> ctrl \<Rightarrow> ctrl" where
  "onFallbackActivated cb s = s\<lparr>listeners := (listeners s)(Ev_fallbackActivated \<mapsto> cb)\<rparr>"

text \<open>
  \<^verbatim>\<open>notifyListeners(event, data)\<close>. The call is entered in the trace. With a callback
  registered for the event, the callback runs inside \<^verbatim>\<open>try\<close>; what it throws is caught
  and written to the console.
\<close>

definition notifyListeners :: "event \<Rightarrow> payload \<Rightarrow> ctrl \<Rightarrow> ctrl" where
  "notifyListeners ev data s =
     (let s1 = s\<lparr>trace := trace s @ [Notify ev data]\<rparr>
      in case listeners s1 ev of
           None \<Rightarrow> s1
         | Some cb \<Rightarrow>
             (case cb data of
                Returned \<Rightarrow> s1
              | Threw e \<Rightarrow> logError [LStr ''Listener error:'', LStr e] s1))"

text \<open>
  \<^verbatim>\<open>handleError(errorType, message)\<close>: push, then \<^verbatim>\<open>shift\<close> once when the log is longer
  than 50.
\<close>

definition handleError :: "error_type \<Rightarrow> string \<Rightarrow> ctrl \<Rightarrow> ctrl" where
  "handleError errorType message s =
     (let error = \<lparr> err_type = errorType, err_message = message,
                     err_timestamp = clock s, err_state = connectionState s \<rparr>;
          s1 = s\<lparr>errorLog := errorLog s @ [error]\<rparr>;
          s2 = (if length (errorLog s1) > 50 then s1\<lparr>errorLog := tl (errorLog s1)\<rparr> else s1);
          s3 = notifyListeners Ev_error (PError error) s2
      in logError [LStr ''['', LType errorType, LStr '']'', LStr message] s3)"

definition getErrorLog :: "ctrl \<Rightarrow> error_record list" where
  "getErrorLog s = errorLog s"

definition clearErrorLog :: "ctrl \<Rightarrow> ctrl" where
  "clearErrorLog s = s\<lparr>errorLog := []\<rparr>"

definition isConnected :: "ctrl \<Rightarrow> bool" where
  "isConnected s = (connectionState s = CONNECTED)"

definition isFallbackMode :: "ctrl \<Rightarrow> bool" where
  "isFallbackMode s = fallbackMode s"

subsection \<open>Sampling\<close>

text \<open>
  Each of the two mock sources computes \<^verbatim>\<open>Math.random() * 3.0\<close> three times. The
  arguments \<open>v1\<close>, \<open>v2\<close>, \<open>v3\<close> are the three values of that expression, as the
  double arithmetic of the runtime gives them (numbers from 0 up to, not including, 3).
\<close>

definition updateDistanceData :: "distance_data \<Rightarrow> ctrl \<Rightarrow> ctrl" where
  "updateDistanceData data s =
     (let s1 = s\<lparr>distanceData := data\<rparr>;
          obstacleLevel = analyzeDistanceData data;
          s2 = notifyListeners Ev_distance (PDistance data) s1
      in if obstacleLevel \<noteq> SAFE
         then notifyListeners Ev_obstacle
                (PObstacle \<lparr> obstacle_level = obstacleLevel,
                             obstacle_distance = Math_min3 (front data) (left data) (right data),
                             obstacle_direction = getClosestDirection data,
                             obstacle_source = source data \<rparr>) s2
         else s2)"

definition simulateDistanceReading :: "real \<Rightarrow> real \<Rightarrow> real \<Rightarrow> ctrl \<Rightarrow> ctrl" where
  "simulateDistanceReading v1 v2 v3 s =
     updateDistanceData
       \<lparr> front = Some v1, left = Some v2, right = Some v3,
         timestamp = Some (clock s), source = Some ''drishtika_hardware'' \<rparr> s"

definition simulateFallbackDistanceData :: "real \<Rightarrow> real \<Rightarrow> real \<Rightarrow> ctrl \<Rightarrow> ctrl" where
  "simulateFallbackDistanceData v1 v2 v3 s =
     updateDistanceData
       \<lparr> front = Some v1, left = Some v2, right = Some v3,
         timestamp = Some (clock s),
         source = Some (if phoneHasLidar s then ''phone_lidar'' else ''camera_depth_estimation'') \<rparr> s"

text \<open>The closure of \<^verbatim>\<open>startDistanceMonitoring\<close>, run at each tick of its interval.\<close>

definition monitoringTick :: "real \<Rightarrow> real \<Rightarrow> real \<Rightarrow> ctrl \<Rightarrow> ctrl" where
  "monitoringTick v1 v2 v3 s =
     (let s1 = (if fallbackMode s then simulateFallbackDistanceData v1 v2 v3 s
                else simulateDistanceReading v1 v2 v3 s)
      in s1\<lparr>lastDataTimestamp := Some (clock s1)\<rparr>)"

text \<open>
  \<^verbatim>\<open>startDistanceMonitoring\<close> and \<^verbatim>\<open>startHealthCheck\<close> store the new id over whatever
  the field held; neither clears a timer.
\<close>

definition startDistanceMonitoring :: "ctrl \<Rightarrow> ctrl" where
  "startDistanceMonitoring s =
     (let (t, s1) = setTimer MonitoringTask 100 s in s1\<lparr>monitoringInterval := Some t\<rparr>)"

definition stopDistanceMonitoring :: "ctrl \<Rightarrow> ctrl" where
  "stopDistanceMonitoring s =
     (case monitoringInterval s of
        Some t \<Rightarrow> (clearTimer t s)\<lparr>monitoringInterval := None\<rparr>
      | None \<Rightarrow> s)"

definition startHealthCheck :: "ctrl \<Rightarrow> ctrl" where
  "startHealthCheck s =
     (let (t, s1) = setTimer HealthCheckTask HEALTH_CHECK_INTERVAL s
      in s1\<lparr>healthCheckTimer := Some t\<rparr>)"

definition stopHealthCheck :: "ctrl \<Rightarrow> ctrl" where
  "stopHealthCheck s =
     (case healthCheckTimer s of
        Some t \<Rightarrow> (clearTimer t s)\<lparr>healthCheckTimer := None\<rparr>
      | None \<Rightarrow> s)"

subsection \<open>Fallback mode\<close>

definition startFallbackSensors :: "ctrl \<Rightarrow> ctrl" where
  "startFallbackSensors s =
     (let s1 = logInfo [LStr ''Starting fallback sensor mode''] s;
          s2 = (if phoneHasLidar s1
                then logInfo [LStr ''Using phone LiDAR for distance detection''] s1
                else logInfo [LStr ''Using camera-based depth estimation''] s1)
      in startDistanceMonitoring s2)"

definition activateFallbackMode :: "string \<Rightarrow> ctrl \<Rightarrow> ctrl" where
  "activateFallbackMode why s =
     (let s1 = logInfo [LStr ''Activating fallback mode:'', LStr why] s;
          s2 = s1\<lparr>fallbackMode := True, connectionState := FALLBACK\<rparr>;
          s3 = notifyListeners Ev_stateChange (PState (connectionState s2)) s2;
          s4 = notifyListeners Ev_fallbackActivated
                 (PFallback \<lparr> fb_reason = why, fb_phoneLidar = phoneHasLidar s3,
                              fb_capabilities =
                                \<lparr> camera = True, microphone = True,
                                  cap_phoneLidar = phoneHasLidar s3,
                                  gps = True, sensors = True \<rparr> \<rparr>) s3
      in startFallbackSensors s4)"

subsection \<open>Initialisation\<close>

datatype os = Web | Ios | Android | OtherOS

text \<open>
  What \<^verbatim>\<open>Platform\<close> and \<^verbatim>\<open>Device\<close> answer: the operating system, the device type (or
  the message of the rejection) and the model name (or \<^verbatim>\<open>null\<close>).
\<close>

record platform =
  OS :: os
  getDeviceTypeAsync :: "string + int"
  modelName :: "string option"

fun startsWith :: "string \<Rightarrow> string \<Rightarrow> bool" where
  "startsWith cs [] = True"
| "startsWith [] (p # ps) = False"
| "startsWith (c # cs) (p # ps) = (c = p \<and> startsWith cs ps)"

fun str_includes :: "string \<Rightarrow> string \<Rightarrow> bool" where
  "str_includes [] p = (p = [])"
| "str_includes (c # cs) p = (startsWith (c # cs) p \<or> str_includes cs p)"

text \<open>
  \<^verbatim>\<open>checkDeviceCapabilities\<close>; with a \<^verbatim>\<open>null\<close> model name the optional chaining gives
  \<^verbatim>\<open>undefined\<close>, which every reader of \<^verbatim>\<open>phoneHasLidar\<close> takes as false.
\<close>

definition checkDeviceCapabilities :: "platform \<Rightarrow> ctrl \<Rightarrow> ctrl" where
  "checkDeviceCapabilities pf s =
     (case getDeviceTypeAsync pf of
        Inl e \<Rightarrow> logError [LStr ''Device capability check failed:'', LStr e] s
      | Inr deviceType \<Rightarrow>
          (let s1 = (if OS pf = Ios
                     then s\<lparr>phoneHasLidar :=
                            (case modelName pf of
                               None \<Rightarrow> False
                             | Some m \<Rightarrow> str_includes m ''Pro'' \<and>
                                 (str_includes m ''12'' \<or> str_includes m ''13'' \<or>
                                  str_includes m ''14'' \<or> str_includes m ''15''))\<rparr>
                     else s)
           in logInfo [LStr ''Device capabilities: Type='', LNum deviceType,
                       LStr '', LiDAR='', LBool (phoneHasLidar s1)] s1))"

definition checkBluetoothAvailable :: "platform \<Rightarrow> bool" where
  "checkBluetoothAvailable pf = (OS pf = Ios \<or> OS pf = Android)"

text \<open>
  \<^verbatim>\<open>initialize()\<close> returns \<^verbatim>\<open>{success, fallbackMode}\<close>. Nothing called inside its
  \<^verbatim>\<open>try\<close> throws, so its \<^verbatim>\<open>catch\<close> is never entered.
\<close>

definition initialize :: "platform \<Rightarrow> ctrl \<Rightarrow> (bool \<times> bool) \<times> ctrl" where
  "initialize pf s =
     (let s1 = logInfo [LStr ''Initializing hardware integration...''] s;
          s2 = checkDeviceCapabilities pf s1
      in if OS pf = Web
         then (let s3 = handleError BLUETOOTH_UNAVAILABLE ''Web platform detected'' s2;
                   s4 = activateFallbackMode ''Web platform does not support Bluetooth'' s3
               in ((True, True), s4))
         else if \<not> checkBluetoothAvailable pf
         then (let s3 = logError [LStr ''Bluetooth not available on device''] s2;
                   s4 = activateFallbackMode ''Bluetooth not available'' s3
               in ((True, True), s4))
         else ((True, False),
               logInfo [LStr ''Hardware integration initialized successfully''] s2))"

subsection \<open>Scanning\<close>

text \<open>\<^verbatim>\<open>performScan()\<close> resolves after 2000 ms, always with the same device.\<close>

definition performScan :: "nat \<times> (string + device_info option)" where
  "performScan =
     (2000, Inr (Some \<lparr> device_id = ''DRISHTIKA_001'', device_name = ''Drishtika Wearable'',
                         rssi = Some (- 60), batteryLevel = Some 85 \<rparr>))"

text \<open>The \<^verbatim>\<open>catch\<close> block of \<^verbatim>\<open>scanForDevice\<close>; it throws the error again.\<close>

definition scan_catch :: "string \<Rightarrow> ctrl \<Rightarrow> (string + device_info) \<times> ctrl" where
  "scan_catch message s =
     (let s1 = handleError DEVICE_NOT_FOUND message s;
          s2 = s1\<lparr>connectionState := DISCONNECTED\<rparr>;
          s3 = notifyListeners Ev_stateChange (PState (connectionState s2)) s2
      in (Inl message, s3))"

definition scanForDevice :: "nat \<Rightarrow> ctrl \<Rightarrow> (string + device_info) \<times> ctrl" where
  "scanForDevice timeout s =
     (let s1 = s\<lparr>connectionState := CONNECTING\<rparr>;
          s2 = notifyListeners Ev_stateChange (PState (connectionState s1)) s1;
          s3 = logInfo [LStr ''Starting device scan...''] s2;
          scanPromise = performScan;
          timeoutPromise = (timeout, Inl ''Scan timeout'');
          (elapsed, settled) = Promise_race scanPromise timeoutPromise;
          s4 = advance elapsed s3
      in case settled of
           Inr (Some found) \<Rightarrow>
             (Inr found, logInfo [LStr ''Device found:'', LStr (device_name found)] s4)
         | Inr None \<Rightarrow> scan_catch ''No device found'' s4
         | Inl message \<Rightarrow> scan_catch message s4)"

subsection \<open>Connecting\<close>

record connect_result =
  res_success :: bool
  res_device :: device_info
  res_attempt :: nat

text \<open>
  \<^verbatim>\<open>establishConnection(deviceId)\<close> settles after 1000 ms: resolved when the draw of
  \<^verbatim>\<open>Math.random()\<close> is above 0.3, rejected otherwise.
\<close>

definition establishConnection :: "string \<Rightarrow> real \<Rightarrow> nat \<times> (string + unit)" where
  "establishConnection deviceId r =
     (1000, if r > 3/10 then Inr () else Inl ''Simulated connection failure'')"

text \<open>The statements of the \<^verbatim>\<open>try\<close> block after the awaited race.\<close>

definition connect_success ::
  "string \<Rightarrow> nat \<Rightarrow> ctrl \<Rightarrow> (string + connect_result option) \<times> ctrl" where
  "connect_success deviceId attempt s =
     (let dev = \<lparr> device_id = deviceId, device_name = ''Drishtika'',
                   rssi = None, batteryLevel = None \<rparr>;
          s1 = s\<lparr>device := Some dev, connectionState := CONNECTED,
                 retryCount := 0, fallbackMode := False\<rparr>;
          s2 = startHealthCheck s1;
          s3 = startDistanceMonitoring s2;
          s4 = notifyListeners Ev_stateChange (PState (connectionState s3)) s3;
          s5 = notifyListeners Ev_connected (PDevice dev) s4;
          s6 = logInfo [LStr ''Device connected successfully''] s5
      in (Inr (Some \<lparr> res_success = True, res_device = dev, res_attempt = attempt \<rparr>), s6))"

text \<open>The branch of the \<^verbatim>\<open>catch\<close> block that gives up.\<close>

definition connect_failed ::
  "string \<Rightarrow> ctrl \<Rightarrow> (string + connect_result option) \<times> ctrl" where
  "connect_failed message s =
     (let s1 = handleError CONNECTION_FAILED message s;
          s2 = s1\<lparr>connectionState := FAILED\<rparr>;
          s3 = notifyListeners Ev_stateChange (PState (connectionState s2)) s2;
          s4 = activateFallbackMode ''Connection failed after max retries'' s3
      in (Inl ''Connection failed after 3 attempts'', s4))"

text \<open>
  The \<^verbatim>\<open>for\<close> loop of \<^verbatim>\<open>connectToDevice\<close>, from the value \<open>attempt\<close> of its counter.
  \<open>random n\<close> is the draw of attempt \<open>n\<close>. A loop that ends without \<^verbatim>\<open>return\<close> gives
  \<^verbatim>\<open>undefined\<close>, here \<open>Inr None\<close>.
\<close>

function connect_loop ::
  "(nat \<Rightarrow> real) \<Rightarrow> string \<Rightarrow> bool \<Rightarrow> nat \<Rightarrow> ctrl
     \<Rightarrow> (string + connect_result option) \<times> ctrl" where
  "connect_loop random deviceId autoRetry attempt s =
     (if attempt \<le> MAX_RETRY_ATTEMPTS then
        (let s1 = logInfo [LStr ''Connection attempt '', LNum (int attempt), LStr ''/'',
                           LNum (int MAX_RETRY_ATTEMPTS)] s;
             connectionPromise = establishConnection deviceId (random attempt);
             timeoutPromise = (CONNECTION_TIMEOUT, Inl ''Connection timeout'');
             settled = Promise_race connectionPromise timeoutPromise;
             s2 = advance (fst settled) (s1\<lparr>trace := trace s1 @ [EstablishConnection deviceId]\<rparr>)
         in case snd settled of
              Inr _ \<Rightarrow> connect_success deviceId attempt s2
            | Inl message \<Rightarrow>
                (let s3 = logError [LStr ''Connection attempt '', LNum (int attempt),
                                    LStr '' failed:'', LStr message] s2
                 in if attempt = MAX_RETRY_ATTEMPTS \<or> \<not> autoRetry
                    then connect_failed message s3
                    else (let delay = RETRY_DELAY_BASE * 2 ^ (attempt - 1);
                              s4 = logInfo [LStr ''Retrying in '', LNum (int delay), LStr ''ms...''] s3;
                              s5 = sleep delay s4
                          in connect_loop random deviceId autoRetry (attempt + 1) s5)))
      else (Inr None, s))"
  by pat_completeness auto
termination
  by (relation "measure (\<lambda>(random, deviceId, autoRetry, attempt, s). Suc MAX_RETRY_ATTEMPTS - attempt)")
     auto

declare connect_loop.simps [simp del]

definition connectToDevice ::
  "(nat \<Rightarrow> real) \<Rightarrow> string \<Rightarrow> bool \<Rightarrow> ctrl \<Rightarrow> (string + connect_result option) \<times> ctrl" where
  "connectToDevice random deviceId autoRetry s =
     (let s1 = s\<lparr>connectionState := CONNECTING\<rparr>;
          s2 = notifyListeners Ev_stateChange (PState (connectionState s1)) s1
      in connect_loop random deviceId autoRetry 1 s2)"

subsection \<open>Health check and reconnection\<close>

text \<open>
  The closure given to \<^verbatim>\<open>setTimeout\<close> by \<^verbatim>\<open>handleConnectionLoss\<close>, run when the
  reconnect timer fires.
\<close>

definition reconnectCallback :: "(nat \<Rightarrow> real) \<Rightarrow> ctrl \<Rightarrow> ctrl" where
  "reconnectCallback random s =
     (case device s of
        Some dev \<Rightarrow>
          (case connectToDevice random (device_id dev) True s of
             (Inr _, s') \<Rightarrow> s'
           | (Inl e, s') \<Rightarrow>
               activateFallbackMode ''Reconnection failed''
                 (logError [LStr ''Reconnection failed:'', LStr e] s'))
      | None \<Rightarrow> s)"

definition handleConnectionLoss :: "ctrl \<Rightarrow> ctrl" where
  "handleConnectionLoss s =
     (let s1 = logError [LStr ''Connection lost - attempting reconnection''] s;
          s2 = s1\<lparr>connectionState := RECONNECTING\<rparr>;
          s3 = notifyListeners Ev_stateChange (PState (connectionState s2)) s2;
          s4 = notifyListeners Ev_connectionLost PEmpty s3;
          s5 = stopHealthCheck s4;
          s6 = stopDistanceMonitoring s5;
          (t, s7) = setTimer ReconnectTask RECONNECT_DELAY s6
      in s7\<lparr>reconnectTimer := Some t\<rparr>)"

text \<open>
  \<^verbatim>\<open>checkConnectionHealth()\<close>, the closure of the health-check interval.
  \<^verbatim>\<open>this.lastDataTimestamp || now\<close> takes \<^verbatim>\<open>now\<close> for \<^verbatim>\<open>null\<close> and for 0.
\<close>

definition checkConnectionHealth :: "ctrl \<Rightarrow> ctrl" where
  "checkConnectionHealth s =
     (if \<not> isConnected s then s
      else (let now = clock s;
                timeSinceLastData =
                  now - (case lastDataTimestamp s of
                           None \<Rightarrow> now
                         | Some t \<Rightarrow> if t = 0 then now else t)
            in if timeSinceLastData > int (HEALTH_CHECK_INTERVAL * 2)
               then handleConnectionLoss
                      (logError [LStr ''Connection health check failed - no data received''] s)
               else s))"

subsection \<open>Disconnecting\<close>

text \<open>
  \<^verbatim>\<open>disconnect()\<close> returns \<^verbatim>\<open>{success: true}\<close>; nothing inside its \<^verbatim>\<open>try\<close> throws, so
  the \<^verbatim>\<open>catch\<close> that would return \<^verbatim>\<open>{success: false}\<close> is never entered.
\<close>

definition disconnect :: "ctrl \<Rightarrow> bool \<times> ctrl" where
  "disconnect s =
     (let s1 = logInfo [LStr ''Disconnecting from device''] s;
          s2 = stopHealthCheck s1;
          s3 = stopDistanceMonitoring s2;
          s4 = (case reconnectTimer s3 of
                  Some t \<Rightarrow> (clearTimer t s3)\<lparr>reconnectTimer := None\<rparr>
                | None \<Rightarrow> s3);
          s5 = s4\<lparr>device := None, connectionState := DISCONNECTED, retryCount := 0\<rparr>;
          s6 = notifyListeners Ev_stateChange (PState (connectionState s5)) s5;
          s7 = notifyListeners Ev_disconnected PEmpty s6
      in (True, s7))"

subsection \<open>Sequences of operations\<close>

text \<open>
  A live timer fires: its closure runs. An interval stays in the table, a timeout leaves
  it before its closure runs (the field \<^verbatim>\<open>reconnectTimer\<close> keeps the id). \<open>random\<close> is
  what the closure gets from \<^verbatim>\<open>Math.random()\<close>: for the reconnection, \<open>random n\<close> is the
  draw of attempt \<open>n\<close>; for the sampling closure, \<open>random 1\<close>, \<open>random 2\<close> and \<open>random 3\<close>
  are the three values of \<^verbatim>\<open>Math.random() * 3.0\<close>. An id that is not live does nothing.
\<close>

definition timerFires :: "nat \<Rightarrow> (nat \<Rightarrow> real) \<Rightarrow> ctrl \<Rightarrow> ctrl" where
  "timerFires t random s =
     (case find (\<lambda>tm. fst tm = t) (timers s) of
        None \<Rightarrow> s
      | Some (_, HealthCheckTask, _) \<Rightarrow> checkConnectionHealth s
      | Some (_, MonitoringTask, _) \<Rightarrow> monitoringTick (random 1) (random 2) (random 3) s
      | Some (_, ReconnectTask, _) \<Rightarrow> reconnectCallback random (clearTimer t s))"

text \<open>
  What can happen to the controller: a call of one of its public methods by the
  application, a timer firing, time passing.
\<close>

datatype op =
  Initialize platform
  | ScanForDevice nat
  | ConnectToDevice "nat \<Rightarrow> real" string bool
  | ActivateFallbackMode string
  | Disconnect
  | Subscribe event callback
  | ClearErrorLog
  | TimerFires nat "nat \<Rightarrow> real"
  | Elapse nat

fun step :: "op \<Rightarrow> ctrl \<Rightarrow> ctrl" where
  "step (Initialize pf) s = snd (initialize pf s)"
| "step (ScanForDevice timeout) s = snd (scanForDevice timeout s)"
| "step (ConnectToDevice random deviceId autoRetry) s = snd (connectToDevice random deviceId autoRetry s)"
| "step (ActivateFallbackMode why) s = activateFallbackMode why s"
| "step Disconnect s = snd (disconnect s)"
| "step (Subscribe ev cb) s = s\<lparr>listeners := (listeners s)(ev \<mapsto> cb)\<rparr>"
| "step ClearErrorLog s = clearErrorLog s"
| "step (TimerFires t random) s = timerFires t random s"
| "step (Elapse ms) s = advance ms s"

definition run :: "op list \<Rightarrow> ctrl \<Rightarrow> ctrl" where
  "run ops s = fold step ops s"

text \<open>
  The controller apart from the console and from who is subscribed: the fields of the
  object, the timers, the clock and the trace.
\<close>

type_synonym ctrl_core =
  "connection_state \<times> device_info option \<times> nat \<times> nat option \<times> nat option \<times> int option
   \<times> distance_data \<times> error_record list \<times> bool \<times> bool \<times> nat option \<times> int
   \<times> timer list \<times> nat \<times> effect list"

definition core :: "ctrl \<Rightarrow> ctrl_core" where
  "core s =
     (connectionState s, device s, retryCount s, healthCheckTimer s, reconnectTimer s,
      lastDataTimestamp s, distanceData s, errorLog s, fallbackMode s, phoneHasLidar s,
      monitoringInterval s, clock s, timers s, nextTimerId s, trace s)"

text \<open>
  While the state is \<open>CONNECTED\<close> or \<open>RECONNECTING\<close> there is a device and fallback
  mode is off.
\<close>

definition connected_has_device :: "ctrl \<Rightarrow> bool" where
  "connected_has_device s \<longleftrightarrow>
     (connectionState s = CONNECTED \<or> connectionState s = RECONNECTING
        \<longrightarrow> device s \<noteq> None \<and> \<not> fallbackMode s)"

section \<open>Properties\<close>

subsection \<open>What the basic methods change\<close>

text \<open>
  Notifying and logging change the trace and the console only; \<open>handleError\<close> changes
  the error log as well.
\<close>

lemma notifyListeners_fields [simp]:
  "connectionState (notifyListeners ev d s) = connectionState s"
  "device (notifyListeners ev d s) = device s"
  "retryCount (notifyListeners ev d s) = retryCount s"
  "healthCheckTimer (notifyListeners ev d s) = healthCheckTimer s"
  "reconnectTimer (notifyListeners ev d s) = reconnectTimer s"
  "lastDataTimestamp (notifyListeners ev d s) = lastDataTimestamp s"
  "distanceData (notifyListeners ev d s) = distanceData s"
  "listeners (notifyListeners ev d s) = listeners s"
  "errorLog (notifyListeners ev d s) = errorLog s"
  "fallbackMode (notifyListeners ev d s) = fallbackMode s"
  "phoneHasLidar (notifyListeners ev d s) = phoneHasLidar s"
  "monitoringInterval (notifyListeners ev d s) = monitoringInterval s"
  "clock (notifyListeners ev d s) = clock s"
  "timers (notifyListeners ev d s) = timers s"
  "nextTimerId (notifyListeners ev d s) = nextTimerId s"
  "trace (notifyListeners ev d s) = trace s @ [Notify ev d]"
  by (simp_all add: notifyListeners_def logError_def Let_def split: option.split outcome.split)

lemma log_fields [simp]:
  "connectionState (logInfo a s) = connectionState s"
  "device (logInfo a s) = device s"
  "retryCount (logInfo a s) = retryCount s"
  "healthCheckTimer (logInfo a s) = healthCheckTimer s"
  "reconnectTimer (logInfo a s) = reconnectTimer s"
  "lastDataTimestamp (logInfo a s) = lastDataTimestamp s"
  "distanceData (logInfo a s) = distanceData s"
  "listeners (logInfo a s) = listeners s"
  "errorLog (logInfo a s) = errorLog s"
  "fallbackMode (logInfo a s) = fallbackMode s"
  "phoneHasLidar (logInfo a s) = phoneHasLidar s"
  "monitoringInterval (logInfo a s) = monitoringInterval s"
  "clock (logInfo a s) = clock s"
  "timers (logInfo a s) = timers s"
  "nextTimerId (logInfo a s) = nextTimerId s"
  "trace (logInfo a s) = trace s"
  "connectionState (logError a s) = connectionState s"
  "device (logError a s) = device s"
  "retryCount (logError a s) = retryCount s"
  "healthCheckTimer (logError a s) = healthCheckTimer s"
  "reconnectTimer (logError a s) = reconnectTimer s"
  "lastDataTimestamp (logError a s) = lastDataTimestamp s"
  "distanceData (logError a s) = distanceData s"
  "listeners (logError a s) = listeners s"
  "errorLog (logError a s) = errorLog s"
  "fallbackMode (logError a s) = fallbackMode s"
  "phoneHasLidar (logError a s) = phoneHasLidar s"
  "monitoringInterval (logError a s) = monitoringInterval s"
  "clock (logError a s) = clock s"
  "timers (logError a s) = timers s"
  "nextTimerId (logError a s) = nextTimerId s"
  "trace (logError a s) = trace s"
  by (simp_all add: logInfo_def logError_def)

lemma handleError_fields [simp]:
  "connectionState (handleError ty m s) = connectionState s"
  "device (handleError ty m s) = device s"
  "retryCount (handleError ty m s) = retryCount s"
  "healthCheckTimer (handleError ty m s) = healthCheckTimer s"
  "reconnectTimer (handleError ty m s) = reconnectTimer s"
  "lastDataTimestamp (handleError ty m s) = lastDataTimestamp s"
  "distanceData (handleError ty m s) = distanceData s"
  "listeners (handleError ty m s) = listeners s"
  "fallbackMode (handleError ty m s) = fallbackMode s"
  "phoneHasLidar (handleError ty m s) = phoneHasLidar s"
  "monitoringInterval (handleError ty m s) = monitoringInterval s"
  "clock (handleError ty m s) = clock s"
  "timers (handleError ty m s) = timers s"
  "nextTimerId (handleError ty m s) = nextTimerId s"
  "trace (handleError ty m s) = trace s @
     [Notify Ev_error (PError \<lparr> err_type = ty, err_message = m,
        err_timestamp = clock s, err_state = connectionState s \<rparr>)]"
  by (simp_all add: handleError_def Let_def)

lemma handleError_errorLog:
  "errorLog (handleError ty m s) =
     (if length (errorLog s) \<ge> 50
      then tl (errorLog s @ [\<lparr> err_type = ty, err_message = m,
                err_timestamp = clock s, err_state = connectionState s \<rparr>])
      else errorLog s @ [\<lparr> err_type = ty, err_message = m,
                err_timestamp = clock s, err_state = connectionState s \<rparr>])"
  by (simp add: handleError_def Let_def)

lemma handleError_length:
  "length (errorLog s) \<le> 50 \<Longrightarrow> length (errorLog (handleError ty m s)) \<le> 50"
  by (simp add: handleError_errorLog)

lemma handleError_last:
  "errorLog (handleError ty m s) \<noteq> []"
  "last (errorLog (handleError ty m s)) =
     \<lparr> err_type = ty, err_message = m, err_timestamp = clock s,
       err_state = connectionState s \<rparr>"
  by (cases "errorLog s"; simp add: handleError_errorLog)+

lemma fold_handleError_frame [simp]:
  "clock (fold (\<lambda>e. handleError (fst e) (snd e)) es s) = clock s"
  "connectionState (fold (\<lambda>e. handleError (fst e) (snd e)) es s) = connectionState s"
  by (induction es arbitrary: s) simp_all

lemma fold_handleError_errorLog:
  "length (errorLog s) \<le> 50 \<Longrightarrow>
   errorLog (fold (\<lambda>e. handleError (fst e) (snd e)) es s) =
     drop (length (errorLog s) + length es - 50)
       (errorLog s @ map (\<lambda>e. \<lparr> err_type = fst e, err_message = snd e,
                  err_timestamp = clock s, err_state = connectionState s \<rparr>) es)"
proof (induction es arbitrary: s)
  case Nil
  then show ?case by simp
next
  case (Cons e es)
  let ?mk = "\<lambda>e. \<lparr> err_type = fst e, err_message = snd e,
              err_timestamp = clock s, err_state = connectionState s \<rparr>"
  let ?s = "handleError (fst e) (snd e) s"
  define k where "k = length (errorLog s) + 1 - 50"
  define X where "X = errorLog s @ ?mk e # map ?mk es"
  have len: "length (errorLog ?s) \<le> 50"
    using Cons.prems by (rule handleError_length)
  have k: "k \<le> length (errorLog s)"
    by (simp add: k_def)
  have log: "errorLog ?s = drop k (errorLog s @ [?mk e])"
    using Cons.prems by (cases "errorLog s") (auto simp add: handleError_errorLog k_def)
  have app: "errorLog ?s @ map ?mk es = drop k X"
    using k by (simp add: log X_def)
  have idx: "length (errorLog ?s) + length es - 50 + k = length (errorLog s) + length (e # es) - 50"
    using Cons.prems by (simp add: log k_def)
  have "errorLog (fold (\<lambda>e. handleError (fst e) (snd e)) (e # es) s)
        = drop (length (errorLog ?s) + length es - 50) (errorLog ?s @ map ?mk es)"
    by (simp add: Cons.IH [OF len])
  also have "\<dots> = drop (length (errorLog ?s) + length es - 50 + k) X"
    by (simp only: app drop_drop)
  also have "\<dots> = drop (length (errorLog s) + length (e # es) - 50) X"
    by (simp only: idx)
  finally show ?case
    by (simp add: X_def)
qed

subsection \<open>One iteration of the connection loop\<close>

lemma connect_loop_success:
  assumes "attempt \<le> MAX_RETRY_ATTEMPTS" and "random attempt > 3/10"
  shows "connect_loop random deviceId autoRetry attempt s =
     connect_success deviceId attempt
       (advance 1000
          ((logInfo [LStr ''Connection attempt '', LNum (int attempt), LStr ''/'',
                     LNum (int MAX_RETRY_ATTEMPTS)] s)
             \<lparr>trace := trace s @ [EstablishConnection deviceId]\<rparr>))"
  using assms
  by (subst connect_loop.simps)
     (simp add: establishConnection_def Promise_race_def CONNECTION_TIMEOUT_def Let_def)

lemma connect_loop_giveup:
  assumes "attempt \<le> MAX_RETRY_ATTEMPTS" and "random attempt \<le> 3/10"
    and "attempt = MAX_RETRY_ATTEMPTS \<or> \<not> autoRetry"
  shows "connect_loop random deviceId autoRetry attempt s =
     connect_failed ''Simulated connection failure''
       (logError [LStr ''Connection attempt '', LNum (int attempt), LStr '' failed:'',
                  LStr ''Simulated connection failure'']
         (advance 1000
            ((logInfo [LStr ''Connection attempt '', LNum (int attempt), LStr ''/'',
                       LNum (int MAX_RETRY_ATTEMPTS)] s)
               \<lparr>trace := trace s @ [EstablishConnection deviceId]\<rparr>)))"
  using assms
  by (subst connect_loop.simps)
     (auto simp add: establishConnection_def Promise_race_def CONNECTION_TIMEOUT_def Let_def)

lemma connect_loop_retry:
  assumes "attempt < MAX_RETRY_ATTEMPTS" and "random attempt \<le> 3/10" and "autoRetry"
  shows "connect_loop random deviceId autoRetry attempt s =
     connect_loop random deviceId autoRetry (attempt + 1)
       (sleep (RETRY_DELAY_BASE * 2 ^ (attempt - 1))
          (logInfo [LStr ''Retrying in '', LNum (int (RETRY_DELAY_BASE * 2 ^ (attempt - 1))),
                    LStr ''ms...'']
            (logError [LStr ''Connection attempt '', LNum (int attempt), LStr '' failed:'',
                       LStr ''Simulated connection failure'']
              (advance 1000
                 ((logInfo [LStr ''Connection attempt '', LNum (int attempt), LStr ''/'',
                            LNum (int MAX_RETRY_ATTEMPTS)] s)
                    \<lparr>trace := trace s @ [EstablishConnection deviceId]\<rparr>)))))"
  using assms
  by (subst connect_loop.simps)
     (simp add: establishConnection_def Promise_race_def CONNECTION_TIMEOUT_def Let_def)

lemma connect_loop_done:
  "\<not> attempt \<le> MAX_RETRY_ATTEMPTS \<Longrightarrow> connect_loop random deviceId autoRetry attempt s = (Inr None, s)"
  by (subst connect_loop.simps) simp


subsection \<open>What the composite methods change\<close>

lemmas timer_defs = setTimer_def clearTimer_def startDistanceMonitoring_def
  stopDistanceMonitoring_def startHealthCheck_def stopHealthCheck_def

lemma activateFallbackMode_fields [simp]:
  "connectionState (activateFallbackMode why s) = FALLBACK"
  "fallbackMode (activateFallbackMode why s)"
  "device (activateFallbackMode why s) = device s"
  "retryCount (activateFallbackMode why s) = retryCount s"
  "healthCheckTimer (activateFallbackMode why s) = healthCheckTimer s"
  "reconnectTimer (activateFallbackMode why s) = reconnectTimer s"
  "lastDataTimestamp (activateFallbackMode why s) = lastDataTimestamp s"
  "distanceData (activateFallbackMode why s) = distanceData s"
  "listeners (activateFallbackMode why s) = listeners s"
  "errorLog (activateFallbackMode why s) = errorLog s"
  "phoneHasLidar (activateFallbackMode why s) = phoneHasLidar s"
  "clock (activateFallbackMode why s) = clock s"
  "monitoringInterval (activateFallbackMode why s) = Some (nextTimerId s)"
  "timers (activateFallbackMode why s) = timers s @ [(nextTimerId s, MonitoringTask, 100)]"
  "nextTimerId (activateFallbackMode why s) = Suc (nextTimerId s)"
  "trace (activateFallbackMode why s) = trace s @
     [Notify Ev_stateChange (PState FALLBACK),
      Notify Ev_fallbackActivated
        (PFallback \<lparr> fb_reason = why, fb_phoneLidar = phoneHasLidar s,
                     fb_capabilities = \<lparr> camera = True, microphone = True,
                       cap_phoneLidar = phoneHasLidar s, gps = True, sensors = True \<rparr> \<rparr>)]"
  by (simp_all add: activateFallbackMode_def startFallbackSensors_def timer_defs Let_def)

lemma connect_failed_fields [simp]:
  "fst (connect_failed m s) = Inl ''Connection failed after 3 attempts''"
  "connectionState (snd (connect_failed m s)) = FALLBACK"
  "fallbackMode (snd (connect_failed m s))"
  "device (snd (connect_failed m s)) = device s"
  "retryCount (snd (connect_failed m s)) = retryCount s"
  "healthCheckTimer (snd (connect_failed m s)) = healthCheckTimer s"
  "reconnectTimer (snd (connect_failed m s)) = reconnectTimer s"
  "lastDataTimestamp (snd (connect_failed m s)) = lastDataTimestamp s"
  "distanceData (snd (connect_failed m s)) = distanceData s"
  "listeners (snd (connect_failed m s)) = listeners s"
  "errorLog (snd (connect_failed m s)) = errorLog (handleError CONNECTION_FAILED m s)"
  "phoneHasLidar (snd (connect_failed m s)) = phoneHasLidar s"
  "clock (snd (connect_failed m s)) = clock s"
  "monitoringInterval (snd (connect_failed m s)) = Some (nextTimerId s)"
  "timers (snd (connect_failed m s)) = timers s @ [(nextTimerId s, MonitoringTask, 100)]"
  "nextTimerId (snd (connect_failed m s)) = Suc (nextTimerId s)"
  "trace (snd (connect_failed m s)) = trace s @
     [Notify Ev_error (PError \<lparr> err_type = CONNECTION_FAILED, err_message = m,
        err_timestamp = clock s, err_state = connectionState s \<rparr>),
      Notify Ev_stateChange (PState FAILED),
      Notify Ev_stateChange (PState FALLBACK),
      Notify Ev_fallbackActivated
        (PFallback \<lparr> fb_reason = ''Connection failed after max retries'',
                     fb_phoneLidar = phoneHasLidar s,
                     fb_capabilities = \<lparr> camera = True, microphone = True,
                       cap_phoneLidar = phoneHasLidar s, gps = True, sensors = True \<rparr> \<rparr>)]"
  by (simp_all add: connect_failed_def Let_def)

lemma connect_success_fields [simp]:
  "fst (connect_success d a s) =
     Inr (Some \<lparr> res_success = True,
                  res_device = \<lparr> device_id = d, device_name = ''Drishtika'',
                                 rssi = None, batteryLevel = None \<rparr>,
                  res_attempt = a \<rparr>)"
  "connectionState (snd (connect_success d a s)) = CONNECTED"
  "\<not> fallbackMode (snd (connect_success d a s))"
  "device (snd (connect_success d a s)) =
     Some \<lparr> device_id = d, device_name = ''Drishtika'', rssi = None, batteryLevel = None \<rparr>"
  "retryCount (snd (connect_success d a s)) = 0"
  "healthCheckTimer (snd (connect_success d a s)) = Some (nextTimerId s)"
  "monitoringInterval (snd (connect_success d a s)) = Some (Suc (nextTimerId s))"
  "reconnectTimer (snd (connect_success d a s)) = reconnectTimer s"
  "lastDataTimestamp (snd (connect_success d a s)) = lastDataTimestamp s"
  "distanceData (snd (connect_success d a s)) = distanceData s"
  "listeners (snd (connect_success d a s)) = listeners s"
  "errorLog (snd (connect_success d a s)) = errorLog s"
  "phoneHasLidar (snd (connect_success d a s)) = phoneHasLidar s"
  "clock (snd (connect_success d a s)) = clock s"
  "timers (snd (connect_success d a s)) = timers s @
     [(nextTimerId s, HealthCheckTask, HEALTH_CHECK_INTERVAL),
      (Suc (nextTimerId s), MonitoringTask, 100)]"
  "nextTimerId (snd (connect_success d a s)) = Suc (Suc (nextTimerId s))"
  "trace (snd (connect_success d a s)) = trace s @
     [Notify Ev_stateChange (PState CONNECTED),
      Notify Ev_connected (PDevice \<lparr> device_id = d, device_name = ''Drishtika'',
                                      rssi = None, batteryLevel = None \<rparr>)]"
  by (simp_all add: connect_success_def timer_defs Let_def)

lemma disconnect_fields [simp]:
  "fst (disconnect s) = True"
  "connectionState (snd (disconnect s)) = DISCONNECTED"
  "device (snd (disconnect s)) = None"
  "retryCount (snd (disconnect s)) = 0"
  "healthCheckTimer (snd (disconnect s)) = None"
  "monitoringInterval (snd (disconnect s)) = None"
  "reconnectTimer (snd (disconnect s)) = None"
  "lastDataTimestamp (snd (disconnect s)) = lastDataTimestamp s"
  "distanceData (snd (disconnect s)) = distanceData s"
  "listeners (snd (disconnect s)) = listeners s"
  "errorLog (snd (disconnect s)) = errorLog s"
  "fallbackMode (snd (disconnect s)) = fallbackMode s"
  "phoneHasLidar (snd (disconnect s)) = phoneHasLidar s"
  "clock (snd (disconnect s)) = clock s"
  "nextTimerId (snd (disconnect s)) = nextTimerId s"
  "trace (snd (disconnect s)) = trace s @
     [Notify Ev_stateChange (PState DISCONNECTED), Notify Ev_disconnected PEmpty]"
  by (simp_all add: disconnect_def timer_defs Let_def split: option.split)

lemma disconnect_timers:
  "timers (snd (disconnect s)) =
     filter (\<lambda>tm. Some (fst tm) \<noteq> healthCheckTimer s \<and> Some (fst tm) \<noteq> monitoringInterval s
                  \<and> Some (fst tm) \<noteq> reconnectTimer s) (timers s)"
  by (auto simp add: disconnect_def timer_defs Let_def split: option.split intro: filter_cong)

lemma handleConnectionLoss_fields [simp]:
  "connectionState (handleConnectionLoss s) = RECONNECTING"
  "device (handleConnectionLoss s) = device s"
  "retryCount (handleConnectionLoss s) = retryCount s"
  "healthCheckTimer (handleConnectionLoss s) = None"
  "monitoringInterval (handleConnectionLoss s) = None"
  "reconnectTimer (handleConnectionLoss s) = Some (nextTimerId s)"
  "lastDataTimestamp (handleConnectionLoss s) = lastDataTimestamp s"
  "distanceData (handleConnectionLoss s) = distanceData s"
  "listeners (handleConnectionLoss s) = listeners s"
  "errorLog (handleConnectionLoss s) = errorLog s"
  "fallbackMode (handleConnectionLoss s) = fallbackMode s"
  "phoneHasLidar (handleConnectionLoss s) = phoneHasLidar s"
  "clock (handleConnectionLoss s) = clock s"
  "nextTimerId (handleConnectionLoss s) = Suc (nextTimerId s)"
  "trace (handleConnectionLoss s) = trace s @
     [Notify Ev_stateChange (PState RECONNECTING), Notify Ev_connectionLost PEmpty]"
  by (simp_all add: handleConnectionLoss_def timer_defs Let_def split: option.split)

lemma handleConnectionLoss_timers:
  "timers (handleConnectionLoss s) =
     filter (\<lambda>tm. Some (fst tm) \<noteq> healthCheckTimer s \<and> Some (fst tm) \<noteq> monitoringInterval s)
       (timers s) @ [(nextTimerId s, ReconnectTask, RECONNECT_DELAY)]"
  by (auto simp add: handleConnectionLoss_def timer_defs Let_def split: option.split intro: filter_cong)

lemma checkDeviceCapabilities_fields [simp]:
  "connectionState (checkDeviceCapabilities pf s) = connectionState s"
  "device (checkDeviceCapabilities pf s) = device s"
  "retryCount (checkDeviceCapabilities pf s) = retryCount s"
  "healthCheckTimer (checkDeviceCapabilities pf s) = healthCheckTimer s"
  "reconnectTimer (checkDeviceCapabilities pf s) = reconnectTimer s"
  "lastDataTimestamp (checkDeviceCapabilities pf s) = lastDataTimestamp s"
  "distanceData (checkDeviceCapabilities pf s) = distanceData s"
  "listeners (checkDeviceCapabilities pf s) = listeners s"
  "errorLog (checkDeviceCapabilities pf s) = errorLog s"
  "fallbackMode (checkDeviceCapabilities pf s) = fallbackMode s"
  "monitoringInterval (checkDeviceCapabilities pf s) = monitoringInterval s"
  "clock (checkDeviceCapabilities pf s) = clock s"
  "timers (checkDeviceCapabilities pf s) = timers s"
  "nextTimerId (checkDeviceCapabilities pf s) = nextTimerId s"
  "trace (checkDeviceCapabilities pf s) = trace s"
  by (simp_all add: checkDeviceCapabilities_def Let_def split: sum.split)

lemma checkDeviceCapabilities_phoneHasLidar [simp]:
  "phoneHasLidar (checkDeviceCapabilities pf s) =
     (case getDeviceTypeAsync pf of
        Inl e \<Rightarrow> phoneHasLidar s
      | Inr deviceType \<Rightarrow>
          if OS pf = Ios
          then (case modelName pf of
                  None \<Rightarrow> False
                | Some m \<Rightarrow> str_includes m ''Pro'' \<and>
                    (str_includes m ''12'' \<or> str_includes m ''13'' \<or>
                     str_includes m ''14'' \<or> str_includes m ''15''))
          else phoneHasLidar s)"
  by (simp add: checkDeviceCapabilities_def Let_def split: sum.split)

lemma initialize_fields [simp]:
  "device (snd (initialize pf s)) = device s"
  "retryCount (snd (initialize pf s)) = retryCount s"
  "healthCheckTimer (snd (initialize pf s)) = healthCheckTimer s"
  "reconnectTimer (snd (initialize pf s)) = reconnectTimer s"
  "lastDataTimestamp (snd (initialize pf s)) = lastDataTimestamp s"
  "distanceData (snd (initialize pf s)) = distanceData s"
  "listeners (snd (initialize pf s)) = listeners s"
  "clock (snd (initialize pf s)) = clock s"
  "phoneHasLidar (snd (initialize pf s)) = phoneHasLidar (checkDeviceCapabilities pf s)"
  "length (errorLog s) \<le> 50 \<Longrightarrow> length (errorLog (snd (initialize pf s))) \<le> 50"
  by (simp_all add: initialize_def Let_def handleError_length split: sum.split)

lemma initialize_fallback:
  assumes "OS pf = Web \<or> \<not> checkBluetoothAvailable pf"
  shows "fst (initialize pf s) = (True, True)"
    "connectionState (snd (initialize pf s)) = FALLBACK"
    "fallbackMode (snd (initialize pf s))"
    "monitoringInterval (snd (initialize pf s)) = Some (nextTimerId s)"
    "timers (snd (initialize pf s)) = timers s @ [(nextTimerId s, MonitoringTask, 100)]"
    "nextTimerId (snd (initialize pf s)) = Suc (nextTimerId s)"
  using assms by (auto simp add: initialize_def Let_def)

lemma initialize_ready:
  assumes "\<not> (OS pf = Web \<or> \<not> checkBluetoothAvailable pf)"
  shows "fst (initialize pf s) = (True, False)"
    "connectionState (snd (initialize pf s)) = connectionState s"
    "fallbackMode (snd (initialize pf s)) = fallbackMode s"
    "monitoringInterval (snd (initialize pf s)) = monitoringInterval s"
    "timers (snd (initialize pf s)) = timers s"
    "nextTimerId (snd (initialize pf s)) = nextTimerId s"
    "errorLog (snd (initialize pf s)) = errorLog s"
    "trace (snd (initialize pf s)) = trace s"
  using assms by (auto simp add: initialize_def Let_def)

subsection \<open>Outcomes of whole calls\<close>

lemma connectToDevice_all_fail:
  assumes fails: "\<forall>n. random n \<le> 3/10"
  obtains s3 where
    "connectToDevice random deviceId True s =
       connect_failed ''Simulated connection failure'' s3"
    and "core s3 =
       core (s\<lparr>connectionState := CONNECTING, clock := clock s + 9000,
               trace := trace s @
                 [Notify Ev_stateChange (PState CONNECTING),
                  EstablishConnection deviceId, Sleep 2000,
                  EstablishConnection deviceId, Sleep 4000,
                  EstablishConnection deviceId]\<rparr>)"
    and "listeners s3 = listeners s"
proof -
  let ?made = "\<lambda>n st. advance 1000
      ((logInfo [LStr ''Connection attempt '', LNum (int n), LStr ''/'',
                 LNum (int MAX_RETRY_ATTEMPTS)] st)
         \<lparr>trace := trace st @ [EstablishConnection deviceId]\<rparr>)"
  let ?fail = "\<lambda>n st. logError [LStr ''Connection attempt '', LNum (int n), LStr '' failed:'',
                  LStr ''Simulated connection failure''] (?made n st)"
  let ?wait = "\<lambda>n st. sleep (RETRY_DELAY_BASE * 2 ^ (n - 1))
      (logInfo [LStr ''Retrying in '', LNum (int (RETRY_DELAY_BASE * 2 ^ (n - 1))),
                LStr ''ms...''] (?fail n st))"
  define s0 where "s0 = notifyListeners Ev_stateChange (PState CONNECTING)
                          (s\<lparr>connectionState := CONNECTING\<rparr>)"
  define s1 where "s1 = ?wait 1 s0"
  define s2 where "s2 = ?wait 2 s1"
  define s3 where "s3 = ?fail 3 s2"
  have e1: "connect_loop random deviceId True (Suc 0) s0 =
              connect_loop random deviceId True (Suc (Suc 0)) s1"
    using connect_loop_retry [of "Suc 0" random True deviceId s0] fails
    by (simp add: MAX_RETRY_ATTEMPTS_def s1_def)
  have e2: "connect_loop random deviceId True (Suc (Suc 0)) s1 =
              connect_loop random deviceId True (Suc (Suc (Suc 0))) s2"
    using connect_loop_retry [of "Suc (Suc 0)" random True deviceId s1] fails
    by (simp add: MAX_RETRY_ATTEMPTS_def s2_def numeral_2_eq_2)
  have e3: "connect_loop random deviceId True (Suc (Suc (Suc 0))) s2 =
              connect_failed ''Simulated connection failure'' s3"
    using connect_loop_giveup [of "Suc (Suc (Suc 0))" random True deviceId s2] fails
    by (simp add: MAX_RETRY_ATTEMPTS_def s3_def numeral_3_eq_3)
  have run: "connectToDevice random deviceId True s =
               connect_failed ''Simulated connection failure'' s3"
    by (simp add: connectToDevice_def Let_def s0_def [symmetric] e1 e2 e3)
  have s3: "core s3 =
       core (s\<lparr>connectionState := CONNECTING, clock := clock s + 9000,
               trace := trace s @
                 [Notify Ev_stateChange (PState CONNECTING),
                  EstablishConnection deviceId, Sleep 2000,
                  EstablishConnection deviceId, Sleep 4000,
                  EstablishConnection deviceId]\<rparr>)"
    "listeners s3 = listeners s"
    by (simp_all add: s3_def s2_def s1_def s0_def sleep_def advance_def RETRY_DELAY_BASE_def
        core_def)
  show ?thesis
    using that [OF run s3] .
qed

lemma scanForDevice_found:
  assumes "2000 \<le> timeout"
  shows "fst (scanForDevice timeout s) =
           Inr \<lparr> device_id = ''DRISHTIKA_001'', device_name = ''Drishtika Wearable'',
                  rssi = Some (- 60), batteryLevel = Some 85 \<rparr>"
    "core (snd (scanForDevice timeout s)) =
       core (s\<lparr>connectionState := CONNECTING, clock := clock s + 2000,
               trace := trace s @ [Notify Ev_stateChange (PState CONNECTING)]\<rparr>)"
    "listeners (snd (scanForDevice timeout s)) = listeners s"
  using assms
  by (simp_all add: scanForDevice_def performScan_def Promise_race_def Let_def advance_def core_def)

lemma scanForDevice_timeout:
  assumes "timeout < 2000"
  shows "fst (scanForDevice timeout s) = Inl ''Scan timeout''"
    "core (snd (scanForDevice timeout s)) =
       core (s\<lparr>connectionState := DISCONNECTED, clock := clock s + int timeout,
               errorLog := errorLog (handleError DEVICE_NOT_FOUND ''Scan timeout''
                  (s\<lparr>connectionState := CONNECTING, clock := clock s + int timeout\<rparr>)),
               trace := trace s @
                 [Notify Ev_stateChange (PState CONNECTING),
                  Notify Ev_error (PError \<lparr> err_type = DEVICE_NOT_FOUND,
                     err_message = ''Scan timeout'', err_timestamp = clock s + int timeout,
                     err_state = CONNECTING \<rparr>),
                  Notify Ev_stateChange (PState DISCONNECTED)]\<rparr>)"
    "listeners (snd (scanForDevice timeout s)) = listeners s"
  using assms
  by (simp_all add: scanForDevice_def scan_catch_def performScan_def Promise_race_def Let_def
      advance_def core_def handleError_errorLog)

lemma checkConnectionHealth_lost:
  assumes "connectionState s = CONNECTED" and "lastDataTimestamp s = Some t" and "t \<noteq> 0"
    and "clock s - t > int (HEALTH_CHECK_INTERVAL * 2)"
  shows "checkConnectionHealth s =
     handleConnectionLoss
       (logError [LStr ''Connection health check failed - no data received''] s)"
  using assms by (simp add: checkConnectionHealth_def isConnected_def Let_def)

lemma checkConnectionHealth_idle:
  "connectionState s \<noteq> CONNECTED \<Longrightarrow> checkConnectionHealth s = s"
  by (simp add: checkConnectionHealth_def isConnected_def)

lemma checkConnectionHealth_fresh:
  "lastDataTimestamp s = Some t \<Longrightarrow> clock s - t \<le> int (HEALTH_CHECK_INTERVAL * 2)
     \<Longrightarrow> checkConnectionHealth s = s"
  by (simp add: checkConnectionHealth_def isConnected_def Let_def HEALTH_CHECK_INTERVAL_def)

lemma reconnectCallback_all_fail:
  assumes "\<forall>n. random n \<le> 3/10" and "device s = Some dev"
  shows "connectionState (reconnectCallback random s) = FALLBACK"
    "fallbackMode (reconnectCallback random s)"
proof -
  obtain s3 where run: "connectToDevice random (device_id dev) True s =
       connect_failed ''Simulated connection failure'' s3"
    using connectToDevice_all_fail [OF assms(1), of "device_id dev" s] by metis
  obtain res s' where c: "connect_failed ''Simulated connection failure'' s3 = (res, s')"
    by (cases "connect_failed ''Simulated connection failure'' s3")
  have r: "res = Inl ''Connection failed after 3 attempts''"
    using connect_failed_fields(1) [of "''Simulated connection failure''" s3] c by simp
  show "connectionState (reconnectCallback random s) = FALLBACK"
    "fallbackMode (reconnectCallback random s)"
    by (simp_all add: reconnectCallback_def assms(2) run c r)
qed

lemma updateDistanceData_fields [simp]:
  "connectionState (updateDistanceData d s) = connectionState s"
  "device (updateDistanceData d s) = device s"
  "retryCount (updateDistanceData d s) = retryCount s"
  "healthCheckTimer (updateDistanceData d s) = healthCheckTimer s"
  "reconnectTimer (updateDistanceData d s) = reconnectTimer s"
  "lastDataTimestamp (updateDistanceData d s) = lastDataTimestamp s"
  "distanceData (updateDistanceData d s) = d"
  "listeners (updateDistanceData d s) = listeners s"
  "errorLog (updateDistanceData d s) = errorLog s"
  "fallbackMode (updateDistanceData d s) = fallbackMode s"
  "phoneHasLidar (updateDistanceData d s) = phoneHasLidar s"
  "monitoringInterval (updateDistanceData d s) = monitoringInterval s"
  "clock (updateDistanceData d s) = clock s"
  "timers (updateDistanceData d s) = timers s"
  "nextTimerId (updateDistanceData d s) = nextTimerId s"
  "trace (updateDistanceData d s) = trace s @
     Notify Ev_distance (PDistance d) #
     (if analyzeDistanceData d \<noteq> SAFE
      then [Notify Ev_obstacle
              (PObstacle \<lparr> obstacle_level = analyzeDistanceData d,
                 obstacle_distance = Math_min3 (front d) (left d) (right d),
                 obstacle_direction = getClosestDirection d,
                 obstacle_source = source d \<rparr>)]
      else [])"
  by (simp_all add: updateDistanceData_def Let_def)

lemma monitoringTick_fields [simp]:
  "connectionState (monitoringTick r1 r2 r3 s) = connectionState s"
  "device (monitoringTick r1 r2 r3 s) = device s"
  "retryCount (monitoringTick r1 r2 r3 s) = retryCount s"
  "healthCheckTimer (monitoringTick r1 r2 r3 s) = healthCheckTimer s"
  "reconnectTimer (monitoringTick r1 r2 r3 s) = reconnectTimer s"
  "lastDataTimestamp (monitoringTick r1 r2 r3 s) = Some (clock s)"
  "listeners (monitoringTick r1 r2 r3 s) = listeners s"
  "errorLog (monitoringTick r1 r2 r3 s) = errorLog s"
  "fallbackMode (monitoringTick r1 r2 r3 s) = fallbackMode s"
  "phoneHasLidar (monitoringTick r1 r2 r3 s) = phoneHasLidar s"
  "monitoringInterval (monitoringTick r1 r2 r3 s) = monitoringInterval s"
  "clock (monitoringTick r1 r2 r3 s) = clock s"
  "timers (monitoringTick r1 r2 r3 s) = timers s"
  "nextTimerId (monitoringTick r1 r2 r3 s) = nextTimerId s"
  "distanceData (monitoringTick r1 r2 r3 s) =
     \<lparr> front = Some r1, left = Some r2, right = Some r3,
       timestamp = Some (clock s),
       source = Some (if fallbackMode s
                      then (if phoneHasLidar s then ''phone_lidar''
                            else ''camera_depth_estimation'')
                      else ''drishtika_hardware'') \<rparr>"
  by (simp_all add: monitoringTick_def simulateDistanceReading_def
      simulateFallbackDistanceData_def)

lemma monitoringTick_trace:
  "trace (monitoringTick r1 r2 r3 s) = trace (updateDistanceData (distanceData (monitoringTick r1 r2 r3 s)) s)"
  by (simp add: monitoringTick_def simulateDistanceReading_def
      simulateFallbackDistanceData_def)

subsection \<open>Every connection attempt ends connected or in fallback mode\<close>

text \<open>
  Whatever the draws, a call of \<open>connectToDevice\<close> ends with the statements of the
  success path or with those of the path that gives up; this carries the invariant
  \<open>connected_has_device\<close> through every operation.
\<close>

lemma connect_loop_outcome:
  assumes "attempt \<le> MAX_RETRY_ATTEMPTS"
  shows "\<exists>n s1 m. errorLog s1 = errorLog s \<and>
           (connect_loop random deviceId autoRetry attempt s = connect_success deviceId n s1
            \<or> connect_loop random deviceId autoRetry attempt s = connect_failed m s1)"
  using assms
proof (induction "MAX_RETRY_ATTEMPTS - attempt" arbitrary: attempt s)
  case 0
  let ?made = "advance 1000
      ((logInfo [LStr ''Connection attempt '', LNum (int attempt), LStr ''/'',
                 LNum (int MAX_RETRY_ATTEMPTS)] s)
         \<lparr>trace := trace s @ [EstablishConnection deviceId]\<rparr>)"
  let ?fail = "logError [LStr ''Connection attempt '', LNum (int attempt), LStr '' failed:'',
                  LStr ''Simulated connection failure''] ?made"
  have keep: "errorLog ?made = errorLog s" "errorLog ?fail = errorLog s"
    by (simp_all add: advance_def)
  from 0 have last: "attempt = MAX_RETRY_ATTEMPTS" by simp
  show ?case
  proof (cases "random attempt > 3/10")
    case True
    have "connect_loop random deviceId autoRetry attempt s = connect_success deviceId attempt ?made"
      using "0.prems" True by (simp add: connect_loop_success)
    with keep(1) show ?thesis by blast
  next
    case False
    have "connect_loop random deviceId autoRetry attempt s =
            connect_failed ''Simulated connection failure'' ?fail"
      using "0.prems" False last by (simp add: connect_loop_giveup)
    with keep(2) show ?thesis by blast
  qed
next
  case (Suc k)
  let ?made = "advance 1000
      ((logInfo [LStr ''Connection attempt '', LNum (int attempt), LStr ''/'',
                 LNum (int MAX_RETRY_ATTEMPTS)] s)
         \<lparr>trace := trace s @ [EstablishConnection deviceId]\<rparr>)"
  let ?fail = "logError [LStr ''Connection attempt '', LNum (int attempt), LStr '' failed:'',
                  LStr ''Simulated connection failure''] ?made"
  let ?wait = "sleep (RETRY_DELAY_BASE * 2 ^ (attempt - 1))
      (logInfo [LStr ''Retrying in '', LNum (int (RETRY_DELAY_BASE * 2 ^ (attempt - 1))),
                LStr ''ms...''] ?fail)"
  have keep: "errorLog ?made = errorLog s" "errorLog ?fail = errorLog s"
    "errorLog ?wait = errorLog s"
    by (simp_all add: advance_def sleep_def)
  from Suc have lt: "attempt < MAX_RETRY_ATTEMPTS" by simp
  show ?case
  proof (cases "random attempt > 3/10")
    case True
    have "connect_loop random deviceId autoRetry attempt s = connect_success deviceId attempt ?made"
      using Suc.prems True by (simp add: connect_loop_success)
    with keep(1) show ?thesis by blast
  next
    case False
    show ?thesis
    proof (cases autoRetry)
      case False
      have "connect_loop random deviceId autoRetry attempt s =
              connect_failed ''Simulated connection failure'' ?fail"
        using Suc.prems \<open>\<not> 3 / 10 < random attempt\<close> False by (simp add: connect_loop_giveup)
      with keep(2) show ?thesis by blast
    next
      case True
      have step: "connect_loop random deviceId autoRetry attempt s =
              connect_loop random deviceId autoRetry (attempt + 1) ?wait"
        using lt \<open>\<not> 3 / 10 < random attempt\<close> True by (simp add: connect_loop_retry)
      have k: "k = MAX_RETRY_ATTEMPTS - (attempt + 1)" using Suc.hyps(2) by simp
      have le: "attempt + 1 \<le> MAX_RETRY_ATTEMPTS" using lt by simp
      from Suc.hyps(1) [OF k le, of ?wait] obtain n s1 m where
        "errorLog s1 = errorLog ?wait"
        "connect_loop random deviceId autoRetry (attempt + 1) ?wait = connect_success deviceId n s1
         \<or> connect_loop random deviceId autoRetry (attempt + 1) ?wait = connect_failed m s1"
        by blast
      then show ?thesis
        unfolding step keep(3) by blast
    qed
  qed
qed

lemma connectToDevice_outcome:
  "\<exists>n s1 m. errorLog s1 = errorLog s \<and>
     (connectToDevice random deviceId autoRetry s = connect_success deviceId n s1
      \<or> connectToDevice random deviceId autoRetry s = connect_failed m s1)"
  using connect_loop_outcome
    [of 1 "notifyListeners Ev_stateChange (PState CONNECTING) (s\<lparr>connectionState := CONNECTING\<rparr>)"
        random deviceId autoRetry]
  by (simp add: connectToDevice_def MAX_RETRY_ATTEMPTS_def)

lemma connectToDevice_first_try:
  assumes "random (Suc 0) > 3/10"
  shows "connectToDevice random deviceId autoRetry s =
     connect_success deviceId (Suc 0)
       (advance 1000
          ((logInfo [LStr ''Connection attempt '', LNum 1, LStr ''/'', LNum 3]
             (notifyListeners Ev_stateChange (PState CONNECTING)
                (s\<lparr>connectionState := CONNECTING\<rparr>)))
             \<lparr>trace := trace s @ [Notify Ev_stateChange (PState CONNECTING),
                                 EstablishConnection deviceId]\<rparr>))"
  using assms
  by (simp add: connectToDevice_def connect_loop_success MAX_RETRY_ATTEMPTS_def)

lemma connectToDevice_connected_has_device:
  "connected_has_device (snd (connectToDevice random deviceId autoRetry s))"
  using connectToDevice_outcome [of s random deviceId autoRetry]
  by (auto simp add: connected_has_device_def)

lemma reconnectCallback_connected_has_device:
  "connected_has_device s \<Longrightarrow> connected_has_device (reconnectCallback random s)"
proof (cases "device s")
  case None
  assume "connected_has_device s"
  then show ?thesis by (simp add: reconnectCallback_def None)
next
  case (Some dev)
  obtain res s' where c: "connectToDevice random (device_id dev) True s = (res, s')"
    by (cases "connectToDevice random (device_id dev) True s")
  have inv: "connected_has_device s'"
    using connectToDevice_connected_has_device [of random "device_id dev" True s] c by simp
  show ?thesis
    by (cases res) (simp_all add: reconnectCallback_def Some c inv, simp add: connected_has_device_def)
qed

lemma checkConnectionHealth_connected_has_device:
  "connected_has_device s \<Longrightarrow> connected_has_device (checkConnectionHealth s)"
  by (simp add: connected_has_device_def checkConnectionHealth_def isConnected_def Let_def)

lemma timerFires_connected_has_device:
  assumes "connected_has_device s"
  shows "connected_has_device (timerFires t random s)"
proof (cases "find (\<lambda>tm. fst tm = t) (timers s)")
  case None
  then show ?thesis using assms by (simp add: timerFires_def)
next
  case (Some tm)
  obtain i task ms where tm: "tm = (i, task, ms)" by (cases tm)
  have cleared: "connected_has_device (clearTimer t s)"
    using assms by (simp add: connected_has_device_def clearTimer_def)
  show ?thesis
  proof (cases task)
    case HealthCheckTask
    then show ?thesis
      using checkConnectionHealth_connected_has_device [OF assms]
      by (simp add: timerFires_def Some tm)
  next
    case MonitoringTask
    then show ?thesis
      using assms by (simp add: timerFires_def Some tm connected_has_device_def)
  next
    case ReconnectTask
    then show ?thesis
      using reconnectCallback_connected_has_device [OF cleared]
      by (simp add: timerFires_def Some tm)
  qed
qed

lemma initialize_connected_has_device:
  "connected_has_device s \<Longrightarrow> connected_has_device (snd (initialize pf s))"
  by (cases "OS pf = Web \<or> \<not> checkBluetoothAvailable pf")
     (simp_all add: connected_has_device_def initialize_fallback initialize_ready)

lemma scanForDevice_connected_has_device:
  "connected_has_device (snd (scanForDevice timeout s))"
proof (cases "2000 \<le> timeout")
  case True
  from scanForDevice_found(2) [OF True, of s] show ?thesis
    by (simp add: connected_has_device_def core_def)
next
  case False
  then have "timeout < 2000" by simp
  from scanForDevice_timeout(2) [OF this, of s] show ?thesis
    by (simp add: connected_has_device_def core_def)
qed

lemma step_connected_has_device:
  "connected_has_device s \<Longrightarrow> connected_has_device (step op s)"
proof (cases op)
  case (Initialize pf)
  assume "connected_has_device s"
  then show ?thesis by (simp add: Initialize initialize_connected_has_device)
next
  case (ScanForDevice timeout)
  then show ?thesis by (simp add: scanForDevice_connected_has_device)
next
  case (ConnectToDevice random deviceId autoRetry)
  then show ?thesis by (simp add: connectToDevice_connected_has_device)
next
  case (ActivateFallbackMode why)
  then show ?thesis by (simp add: connected_has_device_def)
next
  case Disconnect
  then show ?thesis by (simp add: connected_has_device_def)
next
  case (Subscribe ev cb)
  assume "connected_has_device s"
  then show ?thesis by (simp add: Subscribe connected_has_device_def)
next
  case ClearErrorLog
  assume "connected_has_device s"
  then show ?thesis by (simp add: ClearErrorLog connected_has_device_def clearErrorLog_def)
next
  case (TimerFires t random)
  assume "connected_has_device s"
  then show ?thesis by (simp add: TimerFires timerFires_connected_has_device)
next
  case (Elapse ms)
  assume "connected_has_device s"
  then show ?thesis by (simp add: Elapse connected_has_device_def advance_def)
qed

lemma run_connected_has_device:
  "connected_has_device s \<Longrightarrow> connected_has_device (run ops s)"
  unfolding run_def
  by (induction ops arbitrary: s) (simp_all add: step_connected_has_device)

subsection \<open>Operations do not depend on console and subscribers\<close>

text \<open>
  Each method maps states with equal \<open>core\<close> to states with equal \<open>core\<close>, and
  returns the same result for both.
\<close>

lemma notifyListeners_console:
  "console (notifyListeners ev d s) =
     console s @
       (case listeners s ev of
          None \<Rightarrow> []
        | Some cb \<Rightarrow>
            (case cb d of
               Returned \<Rightarrow> []
             | Threw e \<Rightarrow> [(ERROR, [LStr ''[HardwareIntegration]'', LStr ''Listener error:'', LStr e])]))"
  by (simp add: notifyListeners_def logError_def Let_def split: option.split outcome.split)

lemma core_initialize:
  assumes "core s = core t"
  shows "fst (initialize pf s) = fst (initialize pf t)"
    "core (snd (initialize pf s)) = core (snd (initialize pf t))"
  using assms
  by (simp_all add: core_def initialize_def Let_def handleError_errorLog split: sum.split)

lemma core_scanForDevice:
  assumes "core s = core t"
  shows "fst (scanForDevice timeout s) = fst (scanForDevice timeout t)"
    "core (snd (scanForDevice timeout s)) = core (snd (scanForDevice timeout t))"
proof -
  show "fst (scanForDevice timeout s) = fst (scanForDevice timeout t)"
    by (cases "2000 \<le> timeout") (simp_all add: scanForDevice_found(1) scanForDevice_timeout(1))
  show "core (snd (scanForDevice timeout s)) = core (snd (scanForDevice timeout t))"
  proof (cases "2000 \<le> timeout")
    case True
    show ?thesis
      unfolding scanForDevice_found(2) [OF True]
      using assms by (simp add: core_def)
  next
    case False
    then have lt: "timeout < 2000" by simp
    show ?thesis
      unfolding scanForDevice_timeout(2) [OF lt]
      using assms by (simp add: core_def handleError_errorLog)
  qed
qed

lemma core_connect_success:
  assumes "core s = core t"
  shows "fst (connect_success d n s) = fst (connect_success d n t)"
    "core (snd (connect_success d n s)) = core (snd (connect_success d n t))"
  using assms by (simp_all add: core_def)

lemma core_connect_failed:
  assumes "core s = core t"
  shows "fst (connect_failed m s) = fst (connect_failed m t)"
    "core (snd (connect_failed m s)) = core (snd (connect_failed m t))"
  using assms by (simp_all add: core_def handleError_errorLog)

lemma core_connect_loop:
  assumes "core s = core t"
  shows "fst (connect_loop random deviceId autoRetry attempt s)
           = fst (connect_loop random deviceId autoRetry attempt t)
       \<and> core (snd (connect_loop random deviceId autoRetry attempt s))
           = core (snd (connect_loop random deviceId autoRetry attempt t))"
  using assms
proof (induction "Suc MAX_RETRY_ATTEMPTS - attempt" arbitrary: attempt s t)
  case 0
  then have "\<not> attempt \<le> MAX_RETRY_ATTEMPTS" by simp
  then show ?case using "0.prems" by (simp add: connect_loop_done)
next
  case (Suc k)
  let ?made = "\<lambda>st. advance 1000
      ((logInfo [LStr ''Connection attempt '', LNum (int attempt), LStr ''/'',
                 LNum (int MAX_RETRY_ATTEMPTS)] st)
         \<lparr>trace := trace st @ [EstablishConnection deviceId]\<rparr>)"
  let ?fail = "\<lambda>st. logError [LStr ''Connection attempt '', LNum (int attempt), LStr '' failed:'',
                  LStr ''Simulated connection failure''] (?made st)"
  let ?wait = "\<lambda>st. sleep (RETRY_DELAY_BASE * 2 ^ (attempt - 1))
      (logInfo [LStr ''Retrying in '', LNum (int (RETRY_DELAY_BASE * 2 ^ (attempt - 1))),
                LStr ''ms...''] (?fail st))"
  have same: "core (?made s) = core (?made t)" "core (?fail s) = core (?fail t)"
    "core (?wait s) = core (?wait t)"
    using Suc.prems by (simp_all add: core_def advance_def sleep_def)
  from Suc.hyps(2) have le: "attempt \<le> MAX_RETRY_ATTEMPTS" by simp
  show ?case
  proof (cases "random attempt > 3/10")
    case True
    show ?thesis
      using core_connect_success [OF same(1)] le True
      by (simp add: connect_loop_success)
  next
    case False
    show ?thesis
    proof (cases "attempt = MAX_RETRY_ATTEMPTS \<or> \<not> autoRetry")
      case True
      show ?thesis
        using core_connect_failed [OF same(2)] le False True
        by (simp add: connect_loop_giveup)
    next
      case retry: False
      then have lt: "attempt < MAX_RETRY_ATTEMPTS" and ar: autoRetry
        using le by simp_all
      have k: "k = Suc MAX_RETRY_ATTEMPTS - (attempt + 1)" using Suc.hyps(2) by simp
      have step: "connect_loop random deviceId autoRetry attempt st =
              connect_loop random deviceId autoRetry (attempt + 1) (?wait st)" for st
        using lt False ar by (simp add: connect_loop_retry)
      show ?thesis
        unfolding step by (rule Suc.hyps(1) [OF k same(3)])
    qed
  qed
qed

lemma core_connectToDevice:
  assumes "core s = core t"
  shows "fst (connectToDevice random deviceId autoRetry s)
           = fst (connectToDevice random deviceId autoRetry t)"
    "core (snd (connectToDevice random deviceId autoRetry s))
           = core (snd (connectToDevice random deviceId autoRetry t))"
proof -
  have "core (notifyListeners Ev_stateChange (PState CONNECTING) (s\<lparr>connectionState := CONNECTING\<rparr>))
      = core (notifyListeners Ev_stateChange (PState CONNECTING) (t\<lparr>connectionState := CONNECTING\<rparr>))"
    using assms by (simp add: core_def)
  from core_connect_loop [OF this, of random deviceId autoRetry 1]
  show "fst (connectToDevice random deviceId autoRetry s)
           = fst (connectToDevice random deviceId autoRetry t)"
    "core (snd (connectToDevice random deviceId autoRetry s))
           = core (snd (connectToDevice random deviceId autoRetry t))"
    by (simp_all add: connectToDevice_def)
qed

lemma core_checkConnectionHealth:
  assumes "core s = core t"
  shows "core (checkConnectionHealth s) = core (checkConnectionHealth t)"
  using assms
  by (simp add: core_def checkConnectionHealth_def isConnected_def Let_def
      handleConnectionLoss_timers)

lemma core_monitoringTick:
  assumes "core s = core t"
  shows "core (monitoringTick r1 r2 r3 s) = core (monitoringTick r1 r2 r3 t)"
  using assms by (simp add: core_def monitoringTick_trace)

lemma core_reconnectCallback:
  assumes "core s = core t"
  shows "core (reconnectCallback random s) = core (reconnectCallback random t)"
proof (cases "device s")
  case None
  then have "device t = None" using assms by (simp add: core_def)
  with None assms show ?thesis by (simp add: reconnectCallback_def)
next
  case (Some dev)
  then have dt: "device t = Some dev" using assms by (simp add: core_def)
  obtain rs s' where cs: "connectToDevice random (device_id dev) True s = (rs, s')"
    by (cases "connectToDevice random (device_id dev) True s")
  obtain rt t' where ct: "connectToDevice random (device_id dev) True t = (rt, t')"
    by (cases "connectToDevice random (device_id dev) True t")
  from core_connectToDevice [OF assms, of random "device_id dev" True]
  have eq: "rs = rt" "core s' = core t'" by (simp_all add: cs ct)
  show ?thesis
    using eq(2)
    by (cases rt) (simp_all add: reconnectCallback_def Some dt cs ct eq(1), simp add: core_def)
qed

lemma core_timerFires:
  assumes "core s = core t"
  shows "core (timerFires i random s) = core (timerFires i random t)"
proof -
  have tm: "timers s = timers t" using assms by (simp add: core_def)
  have cl: "core (clearTimer i s) = core (clearTimer i t)"
    using assms by (simp add: core_def clearTimer_def)
  show ?thesis
  proof (cases "find (\<lambda>tm. fst tm = i) (timers t)")
    case None
    then show ?thesis using assms by (simp add: timerFires_def tm)
  next
    case (Some x)
    obtain j task ms where x: "x = (j, task, ms)" by (cases x)
    show ?thesis
      by (cases task)
         (simp_all add: timerFires_def tm Some x core_checkConnectionHealth [OF assms]
            core_monitoringTick [OF assms] core_reconnectCallback [OF cl])
  qed
qed

lemma core_step:
  assumes "core s = core t"
  shows "core (step op s) = core (step op t)"
proof (cases op)
  case (Initialize pf)
  then show ?thesis by (simp add: core_initialize(2) [OF assms])
next
  case (ScanForDevice timeout)
  then show ?thesis by (simp add: core_scanForDevice(2) [OF assms])
next
  case (ConnectToDevice random deviceId autoRetry)
  then show ?thesis by (simp add: core_connectToDevice(2) [OF assms])
next
  case (ActivateFallbackMode why)
  then show ?thesis using assms by (simp add: core_def)
next
  case Disconnect
  then show ?thesis using assms by (simp add: core_def disconnect_timers)
next
  case (Subscribe ev cb)
  then show ?thesis using assms by (simp add: core_def)
next
  case ClearErrorLog
  then show ?thesis using assms by (simp add: core_def clearErrorLog_def)
next
  case (TimerFires i random)
  then show ?thesis by (simp add: core_timerFires [OF assms])
next
  case (Elapse ms)
  then show ?thesis using assms by (simp add: core_def advance_def)
qed

lemma core_run:
  "core s = core t \<Longrightarrow> core (run ops s) = core (run ops t)"
proof (induction ops arbitrary: s t)
  case Nil
  then show ?case by (simp add: run_def)
next
  case (Cons op ops)
  from core_step [OF Cons.prems] have "core (step op s) = core (step op t)" .
  from Cons.IH [OF this] show ?case by (simp add: run_def)
qed

subsection \<open>The error log stays bounded under every operation\<close>

lemma connectToDevice_errorLog_length:
  assumes "length (errorLog s) \<le> 50"
  shows "length (errorLog (snd (connectToDevice random deviceId autoRetry s))) \<le> 50"
proof -
  obtain n s1 m where s1: "errorLog s1 = errorLog s"
    and r: "connectToDevice random deviceId autoRetry s = connect_success deviceId n s1
            \<or> connectToDevice random deviceId autoRetry s = connect_failed m s1"
    using connectToDevice_outcome [of s random deviceId autoRetry] by blast
  have "length (errorLog s1) \<le> 50" using assms s1 by simp
  then have "length (errorLog (handleError CONNECTION_FAILED m s1)) \<le> 50"
    by (rule handleError_length)
  with r assms s1 show ?thesis by auto
qed

lemma reconnectCallback_errorLog_length:
  assumes "length (errorLog s) \<le> 50"
  shows "length (errorLog (reconnectCallback random s)) \<le> 50"
proof (cases "device s")
  case None
  then show ?thesis using assms by (simp add: reconnectCallback_def)
next
  case (Some dev)
  obtain res s' where c: "connectToDevice random (device_id dev) True s = (res, s')"
    by (cases "connectToDevice random (device_id dev) True s")
  have "length (errorLog s') \<le> 50"
    using connectToDevice_errorLog_length [OF assms, of random "device_id dev" True] c by simp
  then show ?thesis
    by (cases res) (simp_all add: reconnectCallback_def Some c)
qed

lemma timerFires_errorLog_length:
  assumes "length (errorLog s) \<le> 50"
  shows "length (errorLog (timerFires i random s)) \<le> 50"
proof (cases "find (\<lambda>tm. fst tm = i) (timers s)")
  case None
  then show ?thesis using assms by (simp add: timerFires_def)
next
  case (Some x)
  obtain j task ms where x: "x = (j, task, ms)" by (cases x)
  have cl: "length (errorLog (clearTimer i s)) \<le> 50"
    using assms by (simp add: clearTimer_def)
  have hc: "errorLog (checkConnectionHealth s) = errorLog s"
    by (simp add: checkConnectionHealth_def Let_def)
  show ?thesis
    using assms
    by (cases task)
       (simp_all add: timerFires_def Some x hc reconnectCallback_errorLog_length [OF cl])
qed

lemma scanForDevice_errorLog_length:
  assumes "length (errorLog s) \<le> 50"
  shows "length (errorLog (snd (scanForDevice timeout s))) \<le> 50"
proof (cases "2000 \<le> timeout")
  case True
  from scanForDevice_found(2) [OF True, of s] show ?thesis
    using assms by (simp add: core_def)
next
  case False
  then have "timeout < 2000" by simp
  from scanForDevice_timeout(2) [OF this, of s] show ?thesis
    using assms by (simp add: core_def handleError_length)
qed

lemma step_errorLog_length:
  assumes "length (errorLog s) \<le> 50"
  shows "length (errorLog (step op s)) \<le> 50"
  using assms
  by (cases op)
     (simp_all add: connectToDevice_errorLog_length scanForDevice_errorLog_length
        timerFires_errorLog_length clearErrorLog_def advance_def)

lemma run_errorLog_length:
  "length (errorLog s) \<le> 50 \<Longrightarrow> length (errorLog (run ops s)) \<le> 50"
  unfolding run_def
  by (induction ops arbitrary: s) (simp_all add: step_errorLog_length)

subsection \<open>The classifier\<close>

text \<open>
  C4. For a sample whose three components are numbers, the level is decided by
  \<open>m = min front (min left right)\<close> alone and by the bounds 0.5, 1 and 2, each
  upper-exclusive and tried in ascending order: \<open>CRITICAL\<close> exactly when \<open>m < 0.5\<close>,
  \<open>DANGER\<close> exactly when \<open>0.5 \<le> m < 1\<close>, \<open>WARNING\<close> exactly when \<open>1 \<le> m < 2\<close>,
  \<open>SAFE\<close> exactly when \<open>2 \<le> m\<close>. The method of the older service class gives the same
  level.
\<close>

theorem analyzeDistanceData_thresholds:
  assumes "front data = Some f" and "left data = Some l" and "right data = Some r"
  shows "(analyzeDistanceData data = CRITICAL \<longleftrightarrow> min f (min l r) < 1/2)
       \<and> (analyzeDistanceData data = DANGER \<longleftrightarrow> 1/2 \<le> min f (min l r) \<and> min f (min l r) < 1)
       \<and> (analyzeDistanceData data = WARNING \<longleftrightarrow> 1 \<le> min f (min l r) \<and> min f (min l r) < 2)
       \<and> (analyzeDistanceData data = SAFE \<longleftrightarrow> 2 \<le> min f (min l r))
       \<and> service_analyzeDistanceData data = analyzeDistanceData data"
proof -
  define m where "m = min f (min l r)"
  have lvl: "analyzeDistanceData data =
      (if m < 1/2 then CRITICAL else if m < 1 then DANGER else if m < 2 then WARNING else SAFE)"
    using assms
    by (simp add: analyzeDistanceData_def Math_min3_def toNumber_def Let_def m_def)
  have svc: "service_analyzeDistanceData data = analyzeDistanceData data"
    by (simp add: analyzeDistanceData_def service_analyzeDistanceData_def
        DISTANCE_THRESHOLDS_def Let_def)
  show ?thesis
    unfolding m_def [symmetric] svc lvl by auto
qed

text \<open>The sample of the specification: front 0.3, left 2, right 2 is \<open>CRITICAL\<close>.\<close>

theorem analyzeDistanceData_thresholds_witness:
  "analyzeDistanceData
     \<lparr> front = Some (3/10), left = Some 2, right = Some 2,
       timestamp = None, source = None \<rparr> = CRITICAL"
  using analyzeDistanceData_thresholds
    [of "\<lparr> front = Some (3/10), left = Some 2, right = Some 2,
            timestamp = None, source = None \<rparr>" "3/10" 2 2]
  by simp

text \<open>
  C9, as stated, fails: with front and left tied at the minimum the direction is not
  front. Here front = left = 1 and right = 2, and the direction is left.
\<close>

theorem getClosestDirection_tie_counterexample:
  "toNumber (front \<lparr> front = Some 1, left = Some 1, right = Some 2,
                      timestamp = None, source = None \<rparr>)
     = Math_min3 (Some 1) (Some 1) (Some 2)
   \<and> getClosestDirection \<lparr> front = Some 1, left = Some 1, right = Some 2,
                            timestamp = None, source = None \<rparr> = Some Kleft"
  by (simp add: getClosestDirection_def reduce_def Object_keys_def closer_def
      distances_def toNumber_def Math_min3_def)

text \<open>
  C9, amended. For every sample (a \<^verbatim>\<open>null\<close> component counting as 0, as the comparison
  of the source takes it) the direction is a component whose distance is the minimum of
  the three, and among components tied at the minimum the last one in the order front,
  left, right is chosen: front only when it is strictly below left and right, left only
  when it is strictly below right and not above front, right whenever it is not above
  the other two.
\<close>

theorem getClosestDirection_last_minimum:
  "\<exists>k. getClosestDirection data = Some k
     \<and> toNumber (distances data k) = Math_min3 (front data) (left data) (right data)
     \<and> (k = Kfront \<longleftrightarrow> toNumber (front data) < toNumber (left data)
                        \<and> toNumber (front data) < toNumber (right data))
     \<and> (k = Kleft \<longleftrightarrow> toNumber (left data) \<le> toNumber (front data)
                        \<and> toNumber (left data) < toNumber (right data))
     \<and> (k = Kright \<longleftrightarrow> toNumber (right data) \<le> toNumber (front data)
                        \<and> toNumber (right data) \<le> toNumber (left data))"
  by (auto simp add: getClosestDirection_def reduce_def Object_keys_def closer_def
      distances_def Math_min3_def min_def)

theorem getClosestDirection_last_minimum_witness:
  "getClosestDirection \<lparr> front = Some 1, left = Some 1, right = Some 1,
                          timestamp = None, source = None \<rparr> = Some Kright"
  using getClosestDirection_last_minimum
    [of "\<lparr> front = Some 1, left = Some 1, right = Some 1,
            timestamp = None, source = None \<rparr>"]
  by (auto simp add: toNumber_def)

subsection \<open>The error log\<close>

text \<open>
  C5. Starting from a log of at most 50 records (the constructor's log is empty), any
  sequence of calls of \<open>handleError\<close> leaves at most 50 records, and the log is the
  old records followed by the new ones, in insertion order, cut from the front down to
  the last 50: the oldest records are evicted first. After 51 insertions into an empty
  log it holds exactly the last 50. The bound also survives every sequence of
  operations of the controller, so it holds in every state reached from a new one.
\<close>

theorem errorLog_bounded_fifo:
  assumes "length (errorLog s) \<le> 50"
  shows "length (errorLog (fold (\<lambda>e. handleError (fst e) (snd e)) es s)) \<le> 50
       \<and> errorLog (fold (\<lambda>e. handleError (fst e) (snd e)) es s) =
           drop (length (errorLog s) + length es - 50)
             (errorLog s @ map (\<lambda>e. \<lparr> err_type = fst e, err_message = snd e,
                        err_timestamp = clock s, err_state = connectionState s \<rparr>) es)
       \<and> length (errorLog (run ops s)) \<le> 50"
  using assms by (simp add: fold_handleError_errorLog run_errorLog_length)

theorem errorLog_bounded_fifo_witness:
  "errorLog (fold (\<lambda>e. handleError (fst e) (snd e))
               (map (\<lambda>i. (CONNECTION_FAILED, replicate i (CHR ''x''))) [0..<51])
               (new_ctrl 0))
   = map (\<lambda>i. \<lparr> err_type = CONNECTION_FAILED, err_message = replicate i (CHR ''x''),
                  err_timestamp = 0, err_state = DISCONNECTED \<rparr>) [1..<51]"
  using errorLog_bounded_fifo
    [of "new_ctrl 0" "map (\<lambda>i. (CONNECTION_FAILED, replicate i (CHR ''x''))) [0..<51]"]
  by (simp add: new_ctrl_def drop_map comp_def)

subsection \<open>Connecting with retries\<close>

text \<open>
  C1. When every attempt of a call \<open>connectToDevice random deviceId True\<close> fails (every
  draw is at most 0.3), the call does exactly this to the outside, in this order: it
  announces \<open>CONNECTING\<close>, makes a first attempt, sleeps \<open>2000 * 2 ^ (1 - 1) = 2000\<close> ms,
  makes a second attempt, sleeps \<open>2000 * 2 ^ (2 - 1) = 4000\<close> ms (strictly longer), makes
  a third and last attempt, reports a \<open>CONNECTION_FAILED\<close> error taken in state
  \<open>CONNECTING\<close>, announces \<open>FAILED\<close>, and then announces \<open>FALLBACK\<close> and the activation of
  fallback mode. The error is the last record of the error log, the call is rejected,
  and it ends in state \<open>FALLBACK\<close> with fallback mode on and the sampling timer of
  fallback mode started.
\<close>

theorem connectToDevice_exhausts_retries:
  assumes fails: "\<forall>n. random n \<le> 3/10"
  shows "fst (connectToDevice random deviceId True s) = Inl ''Connection failed after 3 attempts''
   \<and> trace (snd (connectToDevice random deviceId True s)) = trace s @
       [Notify Ev_stateChange (PState CONNECTING),
        EstablishConnection deviceId,
        Sleep (RETRY_DELAY_BASE * 2 ^ (1 - 1)),
        EstablishConnection deviceId,
        Sleep (RETRY_DELAY_BASE * 2 ^ (2 - 1)),
        EstablishConnection deviceId,
        Notify Ev_error (PError \<lparr> err_type = CONNECTION_FAILED,
           err_message = ''Simulated connection failure'',
           err_timestamp = clock s + 9000, err_state = CONNECTING \<rparr>),
        Notify Ev_stateChange (PState FAILED),
        Notify Ev_stateChange (PState FALLBACK),
        Notify Ev_fallbackActivated
          (PFallback \<lparr> fb_reason = ''Connection failed after max retries'',
                       fb_phoneLidar = phoneHasLidar s,
                       fb_capabilities = \<lparr> camera = True, microphone = True,
                         cap_phoneLidar = phoneHasLidar s, gps = True, sensors = True \<rparr> \<rparr>)]
   \<and> RETRY_DELAY_BASE * 2 ^ (1 - 1) = 2000
   \<and> RETRY_DELAY_BASE * 2 ^ (2 - 1) = 4000
   \<and> RETRY_DELAY_BASE * 2 ^ (1 - 1) < RETRY_DELAY_BASE * 2 ^ (2 - 1)
   \<and> errorLog (snd (connectToDevice random deviceId True s)) \<noteq> []
   \<and> last (errorLog (snd (connectToDevice random deviceId True s))) =
         \<lparr> err_type = CONNECTION_FAILED, err_message = ''Simulated connection failure'',
           err_timestamp = clock s + 9000, err_state = CONNECTING \<rparr>
   \<and> connectionState (snd (connectToDevice random deviceId True s)) = FALLBACK
   \<and> fallbackMode (snd (connectToDevice random deviceId True s))
   \<and> monitoringInterval (snd (connectToDevice random deviceId True s)) = Some (nextTimerId s)
   \<and> timers (snd (connectToDevice random deviceId True s)) = timers s @ [(nextTimerId s, MonitoringTask, 100)]"
proof -
  obtain s3 where run: "connectToDevice random deviceId True s =
       connect_failed ''Simulated connection failure'' s3"
    and s3: "core s3 =
       core (s\<lparr>connectionState := CONNECTING, clock := clock s + 9000,
               trace := trace s @
                 [Notify Ev_stateChange (PState CONNECTING),
                  EstablishConnection deviceId, Sleep 2000,
                  EstablishConnection deviceId, Sleep 4000,
                  EstablishConnection deviceId]\<rparr>)"
    using connectToDevice_all_fail [OF fails, of deviceId s] by metis
  from s3 show ?thesis
    by (simp add: run core_def RETRY_DELAY_BASE_def handleError_last)
qed

theorem connectToDevice_exhausts_retries_witness:
  "fst (connectToDevice (\<lambda>n. 0) ''DRISHTIKA_001'' True (new_ctrl 0))
     = Inl ''Connection failed after 3 attempts''
   \<and> connectionState (snd (connectToDevice (\<lambda>n. 0) ''DRISHTIKA_001'' True (new_ctrl 0))) = FALLBACK
   \<and> fallbackMode (snd (connectToDevice (\<lambda>n. 0) ''DRISHTIKA_001'' True (new_ctrl 0)))
   \<and> timers (snd (connectToDevice (\<lambda>n. 0) ''DRISHTIKA_001'' True (new_ctrl 0)))
       = [(1, MonitoringTask, 100)]"
  using connectToDevice_exhausts_retries [of "\<lambda>n. 0" "''DRISHTIKA_001''" "new_ctrl 0"]
  by (simp add: new_ctrl_def)

subsection \<open>Device handle, connection state and fallback mode\<close>

text \<open>
  C2, as stated, fails: after a successful \<open>connectToDevice\<close> followed by
  \<open>activateFallbackMode\<close> the device handle is still set, while the state is
  \<open>FALLBACK\<close> and fallback mode is on. Only \<open>disconnect\<close> ever clears the handle.
\<close>

theorem fallback_keeps_device_counterexample:
  "device (run [ConnectToDevice (\<lambda>n. 1) ''DRISHTIKA_001'' True,
                ActivateFallbackMode ''User requested fallback mode''] (new_ctrl 0)) \<noteq> None
   \<and> connectionState (run [ConnectToDevice (\<lambda>n. 1) ''DRISHTIKA_001'' True,
                ActivateFallbackMode ''User requested fallback mode''] (new_ctrl 0)) = FALLBACK
   \<and> fallbackMode (run [ConnectToDevice (\<lambda>n. 1) ''DRISHTIKA_001'' True,
                ActivateFallbackMode ''User requested fallback mode''] (new_ctrl 0))"
  by (simp add: run_def connectToDevice_first_try)

text \<open>
  C2, amended. In every state reached from a new controller by any sequence of
  operations (public method calls, timers firing, time passing, each run to completion):
  if the connection state is \<open>CONNECTED\<close> or \<open>RECONNECTING\<close>, then the device handle is
  set and fallback mode is off.
\<close>

theorem connected_implies_device:
  "connected_has_device (run ops (new_ctrl now))"
  by (rule run_connected_has_device) (simp add: connected_has_device_def new_ctrl_def)

theorem connected_implies_device_witness:
  "connectionState (run [ConnectToDevice (\<lambda>n. 1) ''DRISHTIKA_001'' True] (new_ctrl 0)) = CONNECTED
   \<and> device (run [ConnectToDevice (\<lambda>n. 1) ''DRISHTIKA_001'' True] (new_ctrl 0)) \<noteq> None
   \<and> \<not> fallbackMode (run [ConnectToDevice (\<lambda>n. 1) ''DRISHTIKA_001'' True] (new_ctrl 0))"
  using connected_implies_device [of "[ConnectToDevice (\<lambda>n. 1) ''DRISHTIKA_001'' True]" 0]
  by (simp add: run_def connectToDevice_first_try connected_has_device_def)

subsection \<open>Health check\<close>

text \<open>
  \<open>startHealthCheck\<close> registers \<open>checkConnectionHealth\<close> with the period
  \<open>HEALTH_CHECK_INTERVAL\<close> of 5000 ms. When the check runs in state \<open>CONNECTED\<close> and the
  clock is more than twice that period past the time of the last sample, then: the
  state becomes \<open>RECONNECTING\<close>, announced once together with the loss of the
  connection; the health-check timer and the sampling timer whose ids the controller
  holds are cleared and their fields reset (a timer whose id was overwritten stays);
  exactly one timer is added, the reconnection after \<open>RECONNECT_DELAY\<close> = 3000 ms,
  and its id is stored; a health check that runs after any
  further time changes nothing, so no second transition can follow while the state is
  \<open>RECONNECTING\<close>; and if every attempt of the reconnection fails, the reconnection
  ends in state \<open>FALLBACK\<close> with fallback mode on. A check that runs while the last
  sample is at most 10000 ms old changes nothing.
\<close>

lemma checkConnectionHealth_silence:
  assumes "connectionState s = CONNECTED" and "lastDataTimestamp s = Some t" and "t \<noteq> 0"
    and "clock s - t > int (2 * HEALTH_CHECK_INTERVAL)" and "device s = Some dev"
  shows "connectionState (checkConnectionHealth s) = RECONNECTING
   \<and> trace (checkConnectionHealth s) = trace s @
        [Notify Ev_stateChange (PState RECONNECTING), Notify Ev_connectionLost PEmpty]
   \<and> healthCheckTimer (checkConnectionHealth s) = None
   \<and> monitoringInterval (checkConnectionHealth s) = None
   \<and> reconnectTimer (checkConnectionHealth s) = Some (nextTimerId s)
   \<and> timers (checkConnectionHealth s) =
        filter (\<lambda>tm. Some (fst tm) \<noteq> healthCheckTimer s \<and> Some (fst tm) \<noteq> monitoringInterval s)
          (timers s) @ [(nextTimerId s, ReconnectTask, RECONNECT_DELAY)]
   \<and> RECONNECT_DELAY = 3000
   \<and> timers (startHealthCheck s) = timers s @ [(nextTimerId s, HealthCheckTask, 5000)]
   \<and> checkConnectionHealth (s\<lparr>clock := t + int (2 * HEALTH_CHECK_INTERVAL)\<rparr>)
        = s\<lparr>clock := t + int (2 * HEALTH_CHECK_INTERVAL)\<rparr>
   \<and> checkConnectionHealth (advance ms (checkConnectionHealth s))
        = advance ms (checkConnectionHealth s)
   \<and> ((\<forall>n. random n \<le> 3/10) \<longrightarrow>
        connectionState (reconnectCallback random (checkConnectionHealth s)) = FALLBACK
        \<and> fallbackMode (reconnectCallback random (checkConnectionHealth s)))"
proof -
  have lost: "checkConnectionHealth s =
     handleConnectionLoss
       (logError [LStr ''Connection health check failed - no data received''] s)"
    using assms by (intro checkConnectionHealth_lost) (simp_all add: mult.commute)
  have dev: "device (checkConnectionHealth s) = Some dev"
    by (simp add: lost assms)
  have again: "checkConnectionHealth (advance ms (checkConnectionHealth s))
        = advance ms (checkConnectionHealth s)"
    by (rule checkConnectionHealth_idle) (simp add: lost advance_def)
  have fresh: "checkConnectionHealth (s\<lparr>clock := t + int (2 * HEALTH_CHECK_INTERVAL)\<rparr>)
        = s\<lparr>clock := t + int (2 * HEALTH_CHECK_INTERVAL)\<rparr>"
    by (rule checkConnectionHealth_fresh [where t = t]) (simp_all add: assms)
  have sched: "timers (startHealthCheck s) = timers s @ [(nextTimerId s, HealthCheckTask, 5000)]"
    by (simp add: startHealthCheck_def setTimer_def HEALTH_CHECK_INTERVAL_def)
  have fall: "(\<forall>n. random n \<le> 3/10) \<longrightarrow>
        connectionState (reconnectCallback random (checkConnectionHealth s)) = FALLBACK
        \<and> fallbackMode (reconnectCallback random (checkConnectionHealth s))"
    using reconnectCallback_all_fail [OF _ dev, of random] by blast
  have now: "connectionState (checkConnectionHealth s) = RECONNECTING"
    "trace (checkConnectionHealth s) = trace s @
        [Notify Ev_stateChange (PState RECONNECTING), Notify Ev_connectionLost PEmpty]"
    "healthCheckTimer (checkConnectionHealth s) = None"
    "monitoringInterval (checkConnectionHealth s) = None"
    "reconnectTimer (checkConnectionHealth s) = Some (nextTimerId s)"
    "timers (checkConnectionHealth s) =
        filter (\<lambda>tm. Some (fst tm) \<noteq> healthCheckTimer s \<and> Some (fst tm) \<noteq> monitoringInterval s)
          (timers s) @ [(nextTimerId s, ReconnectTask, RECONNECT_DELAY)]"
    "RECONNECT_DELAY = 3000"
    by (simp_all add: lost handleConnectionLoss_timers RECONNECT_DELAY_def)
  show ?thesis
    by (intro conjI) (fact now sched fresh again fall)+
qed

text \<open>
  C3 on a concrete run: all three attempts of a first connection fail, which puts the
  controller into fallback mode with sampling timer 1; a second connection succeeds at
  once and starts health-check timer 2 and sampling timer 3, overwriting the stored id of
  timer 1; timer 3 delivers one sample; 10001 ms pass without a sample; the health check
  fires. The state becomes \<open>RECONNECTING\<close>, timers 2 and 3 are cleared, no timer id is
  stored any more, and the reconnection is scheduled as timer 4 after 3000 ms; but
  sampling timer 1 is still live, and when it fires in state \<open>RECONNECTING\<close> a hardware
  sample is delivered.
\<close>

theorem health_check_leaves_sampling_timer:
  "connectionState
     (run [ConnectToDevice (\<lambda>n. 0) ''DRISHTIKA_001'' True,
           ConnectToDevice (\<lambda>n. 1) ''DRISHTIKA_001'' True,
           TimerFires 3 (\<lambda>n. 5/2), Elapse 10001, TimerFires 2 (\<lambda>n. 0)] (new_ctrl 0))
     = RECONNECTING
   \<and> healthCheckTimer
     (run [ConnectToDevice (\<lambda>n. 0) ''DRISHTIKA_001'' True,
           ConnectToDevice (\<lambda>n. 1) ''DRISHTIKA_001'' True,
           TimerFires 3 (\<lambda>n. 5/2), Elapse 10001, TimerFires 2 (\<lambda>n. 0)] (new_ctrl 0))
     = None
   \<and> monitoringInterval
     (run [ConnectToDevice (\<lambda>n. 0) ''DRISHTIKA_001'' True,
           ConnectToDevice (\<lambda>n. 1) ''DRISHTIKA_001'' True,
           TimerFires 3 (\<lambda>n. 5/2), Elapse 10001, TimerFires 2 (\<lambda>n. 0)] (new_ctrl 0))
     = None
   \<and> timers
     (run [ConnectToDevice (\<lambda>n. 0) ''DRISHTIKA_001'' True,
           ConnectToDevice (\<lambda>n. 1) ''DRISHTIKA_001'' True,
           TimerFires 3 (\<lambda>n. 5/2), Elapse 10001, TimerFires 2 (\<lambda>n. 0)] (new_ctrl 0))
     = [(1, MonitoringTask, 100), (4, ReconnectTask, 3000)]
   \<and> trace (step (TimerFires 1 (\<lambda>n. 5/2))
     (run [ConnectToDevice (\<lambda>n. 0) ''DRISHTIKA_001'' True,
           ConnectToDevice (\<lambda>n. 1) ''DRISHTIKA_001'' True,
           TimerFires 3 (\<lambda>n. 5/2), Elapse 10001, TimerFires 2 (\<lambda>n. 0)] (new_ctrl 0)))
     = trace
     (run [ConnectToDevice (\<lambda>n. 0) ''DRISHTIKA_001'' True,
           ConnectToDevice (\<lambda>n. 1) ''DRISHTIKA_001'' True,
           TimerFires 3 (\<lambda>n. 5/2), Elapse 10001, TimerFires 2 (\<lambda>n. 0)] (new_ctrl 0))
       @ [Notify Ev_distance (PDistance
            \<lparr> front = Some (5/2), left = Some (5/2), right = Some (5/2),
              timestamp = Some 20001, source = Some ''drishtika_hardware'' \<rparr>)]"
proof -
  let ?d = "''DRISHTIKA_001''"
  let ?ops = "[ConnectToDevice (\<lambda>n. 0) ?d True, ConnectToDevice (\<lambda>n. 1) ?d True,
               TimerFires 3 (\<lambda>n. 5/2), Elapse 10001, TimerFires 2 (\<lambda>n. 0)]"
  obtain s3 where run1: "connectToDevice (\<lambda>n. 0) ?d True (new_ctrl 0) =
       connect_failed ''Simulated connection failure'' s3"
    and s3: "core s3 =
       core ((new_ctrl 0)\<lparr>connectionState := CONNECTING, clock := clock (new_ctrl 0) + 9000,
               trace := trace (new_ctrl 0) @
                 [Notify Ev_stateChange (PState CONNECTING),
                  EstablishConnection ?d, Sleep 2000,
                  EstablishConnection ?d, Sleep 4000,
                  EstablishConnection ?d]\<rparr>)"
    using connectToDevice_all_fail [of "\<lambda>n. 0" ?d "new_ctrl 0"] by auto
  define a where "a = snd (connect_failed ''Simulated connection failure'' s3)"
  have a: "timers a = [(1, MonitoringTask, 100)]" "nextTimerId a = 2" "clock a = 9000"
    using s3 by (simp_all add: a_def core_def new_ctrl_def)
  define b where "b = snd (connectToDevice (\<lambda>n. 1) ?d True a)"
  have b: "timers b = [(1, MonitoringTask, 100), (2, HealthCheckTask, HEALTH_CHECK_INTERVAL),
                       (3, MonitoringTask, 100)]"
    "nextTimerId b = 4" "clock b = 10000" "connectionState b = CONNECTED"
    "healthCheckTimer b = Some 2" "monitoringInterval b = Some 3" "\<not> fallbackMode b"
    by (simp_all add: b_def connectToDevice_first_try advance_def a)
  define c where "c = advance 10001 (monitoringTick (5/2) (5/2) (5/2) b)"
  have c: "timers c = timers b" "nextTimerId c = 4" "clock c = 20001"
    "connectionState c = CONNECTED" "lastDataTimestamp c = Some 10000"
    "healthCheckTimer c = Some 2" "monitoringInterval c = Some 3" "\<not> fallbackMode c"
    by (simp_all add: c_def advance_def b)
  have lost: "checkConnectionHealth c =
     handleConnectionLoss
       (logError [LStr ''Connection health check failed - no data received''] c)"
    by (rule checkConnectionHealth_lost [where t = 10000])
       (simp_all add: c HEALTH_CHECK_INTERVAL_def)
  have r: "run ?ops (new_ctrl 0) = checkConnectionHealth c"
    by (simp add: run_def run1 a_def [symmetric] b_def [symmetric] timerFires_def b c
        c_def [symmetric])
  have t: "timers (checkConnectionHealth c) = [(1, MonitoringTask, 100), (4, ReconnectTask, 3000)]"
    by (simp add: lost handleConnectionLoss_timers c b RECONNECT_DELAY_def)
  have f: "connectionState (checkConnectionHealth c) = RECONNECTING"
    "healthCheckTimer (checkConnectionHealth c) = None"
    "monitoringInterval (checkConnectionHealth c) = None"
    "\<not> fallbackMode (checkConnectionHealth c)" "clock (checkConnectionHealth c) = 20001"
    by (simp_all add: lost c)
  have tick: "step (TimerFires 1 (\<lambda>n. 5/2)) (checkConnectionHealth c) =
      monitoringTick (5/2) (5/2) (5/2) (checkConnectionHealth c)"
    by (simp add: timerFires_def t)
  show ?thesis
    unfolding r tick
    by (simp add: t f monitoringTick_trace analyzeDistanceData_def Math_min3_def toNumber_def)
qed

subsection \<open>Fallback mode entered twice\<close>




subsection \<open>Disconnecting\<close>

text \<open>
  C7 on a concrete run: all three attempts of a connection fail, which puts the
  controller into fallback mode with sampling timer 1; the application then asks for
  fallback mode itself, which starts sampling timer 2 and overwrites the stored id; then
  \<open>disconnect\<close>. It ends in state \<open>DISCONNECTED\<close> with no timer id stored, and timer 1
  is still live: when it fires (here with the three distances 2.5), a distance sample is
  delivered.
\<close>

theorem disconnect_leaves_sampling_timer:
  "connectionState (run [ConnectToDevice (\<lambda>n. 0) ''DRISHTIKA_001'' True,
        ActivateFallbackMode ''User requested fallback mode'', Disconnect] (new_ctrl 0)) = DISCONNECTED
   \<and> monitoringInterval (run [ConnectToDevice (\<lambda>n. 0) ''DRISHTIKA_001'' True,
        ActivateFallbackMode ''User requested fallback mode'', Disconnect] (new_ctrl 0)) = None
   \<and> timers (run [ConnectToDevice (\<lambda>n. 0) ''DRISHTIKA_001'' True,
        ActivateFallbackMode ''User requested fallback mode'', Disconnect] (new_ctrl 0))
       = [(1, MonitoringTask, 100)]
   \<and> trace (step (TimerFires 1 (\<lambda>n. 5/2))
        (run [ConnectToDevice (\<lambda>n. 0) ''DRISHTIKA_001'' True,
          ActivateFallbackMode ''User requested fallback mode'', Disconnect] (new_ctrl 0)))
     = trace (run [ConnectToDevice (\<lambda>n. 0) ''DRISHTIKA_001'' True,
          ActivateFallbackMode ''User requested fallback mode'', Disconnect] (new_ctrl 0))
       @ [Notify Ev_distance (PDistance
            \<lparr> front = Some (5/2), left = Some (5/2), right = Some (5/2),
              timestamp = Some 9000, source = Some ''camera_depth_estimation'' \<rparr>)]"
proof -
  let ?ops = "[ConnectToDevice (\<lambda>n. 0) ''DRISHTIKA_001'' True,
        ActivateFallbackMode ''User requested fallback mode'', Disconnect]"
  obtain s3 where run: "connectToDevice (\<lambda>n. 0) ''DRISHTIKA_001'' True (new_ctrl 0) =
       connect_failed ''Simulated connection failure'' s3"
    and s3: "core s3 =
       core ((new_ctrl 0)\<lparr>connectionState := CONNECTING, clock := clock (new_ctrl 0) + 9000,
               trace := trace (new_ctrl 0) @
                 [Notify Ev_stateChange (PState CONNECTING),
                  EstablishConnection ''DRISHTIKA_001'', Sleep 2000,
                  EstablishConnection ''DRISHTIKA_001'', Sleep 4000,
                  EstablishConnection ''DRISHTIKA_001'']\<rparr>)"
    using connectToDevice_all_fail [of "\<lambda>n. 0" "''DRISHTIKA_001''" "new_ctrl 0"] by auto
  have f: "clock s3 = 9000" "phoneHasLidar s3 = False" "nextTimerId s3 = 1" "timers s3 = []"
    "healthCheckTimer s3 = None" "reconnectTimer s3 = None"
    using s3 by (simp_all add: core_def new_ctrl_def)
  have r: "run ?ops (new_ctrl 0) =
     snd (disconnect (activateFallbackMode ''User requested fallback mode''
            (snd (connect_failed ''Simulated connection failure'' s3))))"
    by (simp add: run_def run)
  have t: "timers (run ?ops (new_ctrl 0)) = [(1, MonitoringTask, 100)]"
    unfolding r by (simp add: disconnect_timers f)
  have tick: "step (TimerFires 1 (\<lambda>n. 5/2)) (run ?ops (new_ctrl 0)) =
      monitoringTick (5/2) (5/2) (5/2) (run ?ops (new_ctrl 0))"
    by (simp add: timerFires_def t)
  show ?thesis
    unfolding tick t
    by (simp add: r f monitoringTick_trace analyzeDistanceData_def Math_min3_def toNumber_def)
qed

subsection \<open>Scanning\<close>




subsection \<open>Subscribers that throw\<close>

text \<open>
  C10. \<open>notifyListeners\<close>, for any event and payload and whatever is subscribed, always
  returns to its caller, and what it leaves behind apart from the console is the same in
  all cases: the state it was given with the notification entered in the trace. When the
  subscribed callback throws, the only difference is one line on the error console.
  Subscribing changes nothing but the subscriber table. Hence two controllers that agree
  on everything apart from console and subscribers (one whose callbacks throw, one whose
  callbacks return) still agree so after any sequence of operations, and every public
  method hands the same result to its caller in both: fields, timers, clock and trace
  proceed as if the callback had returned normally.
\<close>

theorem notifyListeners_contains_exceptions:
  "core (notifyListeners ev d s) = core (s\<lparr>trace := trace s @ [Notify ev d]\<rparr>)
   \<and> listeners (notifyListeners ev d s) = listeners s
   \<and> (listeners s ev = Some cb \<and> cb d = Threw e \<longrightarrow>
        console (notifyListeners ev d s) =
          console s @ [(ERROR, [LStr ''[HardwareIntegration]'', LStr ''Listener error:'', LStr e])])
   \<and> (listeners s ev = Some cb \<and> cb d = Returned \<longrightarrow>
        console (notifyListeners ev d s) = console s)
   \<and> core (step (Subscribe ev' cb') s) = core s
   \<and> (core s = core t \<longrightarrow>
        core (run ops s) = core (run ops t)
        \<and> fst (initialize pf s) = fst (initialize pf t)
        \<and> fst (scanForDevice timeout s) = fst (scanForDevice timeout t)
        \<and> fst (connectToDevice random deviceId autoRetry s)
            = fst (connectToDevice random deviceId autoRetry t)
        \<and> fst (disconnect s) = fst (disconnect t))"
proof -
  have one: "core (notifyListeners ev d s) = core (s\<lparr>trace := trace s @ [Notify ev d]\<rparr>)"
    "listeners (notifyListeners ev d s) = listeners s"
    "core (step (Subscribe ev' cb') s) = core s"
    by (simp_all add: core_def)
  have thrown: "listeners s ev = Some cb \<and> cb d = Threw e \<longrightarrow>
        console (notifyListeners ev d s) =
          console s @ [(ERROR, [LStr ''[HardwareIntegration]'', LStr ''Listener error:'', LStr e])]"
    by (simp add: notifyListeners_console)
  have returned: "listeners s ev = Some cb \<and> cb d = Returned \<longrightarrow>
        console (notifyListeners ev d s) = console s"
    by (simp add: notifyListeners_console)
  have ops: "core s = core t \<longrightarrow>
        core (run ops s) = core (run ops t)
        \<and> fst (initialize pf s) = fst (initialize pf t)
        \<and> fst (scanForDevice timeout s) = fst (scanForDevice timeout t)
        \<and> fst (connectToDevice random deviceId autoRetry s)
            = fst (connectToDevice random deviceId autoRetry t)
        \<and> fst (disconnect s) = fst (disconnect t)"
    using core_run [of s t ops] core_initialize(1) [of s t pf]
      core_scanForDevice(1) [of s t timeout]
      core_connectToDevice(1) [of s t random deviceId autoRetry]
    by simp
  show ?thesis
    by (intro conjI) (fact one thrown returned ops)+
qed

text \<open>
  Two new controllers, one with a state-change callback that throws and one with a
  callback that returns: after a failed scan and a disconnect they differ in the console
  only, and the first notification of the throwing one is written to the error console.
\<close>

theorem notifyListeners_contains_exceptions_witness:
  "core (run [ScanForDevice 100, Disconnect] (onStateChange (\<lambda>p. Threw ''boom'') (new_ctrl 0)))
     = core (run [ScanForDevice 100, Disconnect] (onStateChange (\<lambda>p. Returned) (new_ctrl 0)))
   \<and> console (notifyListeners Ev_stateChange (PState CONNECTING)
                (onStateChange (\<lambda>p. Threw ''boom'') (new_ctrl 0)))
     = [(ERROR, [LStr ''[HardwareIntegration]'', LStr ''Listener error:'', LStr ''boom''])]"
  using notifyListeners_contains_exceptions
    [of Ev_stateChange "PState CONNECTING" "onStateChange (\<lambda>p. Threw ''boom'') (new_ctrl 0)"
        "\<lambda>p. Threw ''boom''" "''boom''" Ev_stateChange "\<lambda>p. Returned"
        "onStateChange (\<lambda>p. Returned) (new_ctrl 0)" "[ScanForDevice 100, Disconnect]"]
  by (simp add: onStateChange_def new_ctrl_def core_def)

end
